theory Spec2Isabelle
  imports Complex_Main
begin

section \<open>Values, errors and the outside world\<close>

text \<open>
  The launcher \<^verbatim>\<open>src/train/train.py\<close> is orchestration: it reads the environment, loads a
  YAML document, picks a dataset by a string tag, builds the objects of the training
  libraries and hands them to the driver. The model below keeps the source's order of
  operations. Every operation on the outside world is recorded as an event, every raise of
  the source is an \<open>Inl\<close> result, and the libraries the launcher calls (torch, lightning,
  wandb, datasets, pandas, PIL, yaml) are parameters of the model, collected in the record
  \<open>sys\<close>.
\<close>

text \<open>
  The values \<^verbatim>\<open>yaml.safe_load\<close> builds. A mapping is the list of its items; the first
  item with a key is the binding of that key.
\<close>

datatype yaml =
    YNull
  | YBool bool
  | YInt int
  | YFloat rat
  | YStr string
  | YList "yaml list"
  | YMap "(yaml \<times> yaml) list"

datatype error =
    AssertionError
  | KeyError
  | TypeError
  | AttributeError
  | ValueError
  | IndexError
  | UnboundLocalError
  | NotImplementedError
  | FileNotFoundError
  | FileExistsError
  | IsADirectoryError
  | LibraryError string

type_synonym kwargs = "(string \<times> yaml) list"

text \<open>The frame \<^verbatim>\<open>pd.read_csv\<close> returns: column labels and rows of cells.\<close>

record dataframe =
  columns :: "string list"
  rows :: "yaml list list"

text \<open>What \<^verbatim>\<open>row[label]\<close> gives: a cell, or a Series when the label is duplicated.\<close>

datatype field = Scalar yaml | Series "yaml list"

record image =
  img_bytes :: string
  img_mode :: string
  img_width :: nat
  img_height :: nat

datatype transform_op = Resize nat nat

datatype transform_t = Compose "transform_op list"

text \<open>Lines 25-34: the fields \<^verbatim>\<open>LocalSubjectsDataset.__init__\<close> sets.\<close>

record local_subjects_dataset =
  data :: dataframe
  image_dir :: string
  transform_of :: "transform_t option"
  features :: "(string \<times> string) list"

record sample =
  imageA :: image
  prompt :: field
  imageB :: image

text \<open>
  A raw source is the local table or the handle \<^verbatim>\<open>load_dataset\<close> returns (its path and
  keyword arguments); a dataset is one of the adapters of \<^verbatim>\<open>.data\<close> around a raw source.
\<close>

datatype raw_dataset =
    Local local_subjects_dataset
  | Hub string kwargs

datatype dataset = Adapter string raw_dataset kwargs

datatype loader = DataLoader dataset kwargs

datatype model = OminiModel kwargs

datatype callback = TrainingCallback string yaml

datatype trainer = Trainer "callback list" kwargs "(string \<times> yaml) list"

text \<open>The operations on the outside world, in the order the run attempts them.\<close>

datatype event =
    GetEnv string
  | CudaSetDevice int
  | OpenRead string
  | YamlSafeLoad string
  | Strftime string
  | ImportWandb
  | WandbInit kwargs
  | Print "yaml list"
  | ReadCsv string
  | LoadDataset string kwargs
  | NewAdapter string raw_dataset kwargs
  | NewDataLoader dataset kwargs
  | TorchGetAttr yaml
  | NewOminiModel kwargs
  | NewTrainingCallback string yaml
  | NewTrainer "callback list" kwargs
  | MakeDirs string
  | OpenWrite string
  | YamlDump string yaml
  | OpenImage string
  | TrainerFit trainer model loader

text \<open>
  The parameters of a run. \<open>env\<close> is \<^verbatim>\<open>os.environ\<close>; \<open>int_of_str\<close> is the builtin
  \<^verbatim>\<open>int\<close> on a string (\<open>None\<close> where it raises ValueError); \<open>str_of\<close> is the builtin
  \<^verbatim>\<open>str\<close> on a value that is not a string; \<open>strftime\<close> is \<^verbatim>\<open>time.strftime\<close> at the
  moment of the call; \<open>safe_load\<close> and \<open>dump\<close> are the YAML library; \<open>csv_parse\<close> is the
  pandas reader and \<open>image_decode\<close> the PIL decoder on a file's contents; \<open>hub_len\<close> is the
  record count of a hosted dataset; \<open>fails\<close> says which library or OS call raises, and what.
\<close>

record sys =
  env :: "string \<rightharpoonup> string"
  int_of_str :: "string \<Rightarrow> int option"
  str_of :: "yaml \<Rightarrow> string"
  strftime :: "string \<Rightarrow> string"
  safe_load :: "string \<Rightarrow> error + yaml"
  dump :: "yaml \<Rightarrow> string"
  csv_parse :: "string \<Rightarrow> error + dataframe"
  image_decode :: "string \<Rightarrow> error + image"
  hub_len :: "string \<Rightarrow> kwargs \<Rightarrow> nat"
  fails :: "event \<Rightarrow> error option"

text \<open>The file system: the directories, and the regular files with their contents.\<close>

record fs =
  dirs :: "string set"
  files :: "string \<rightharpoonup> string"

section \<open>Actions: a result or an error, the events attempted, the new file system\<close>

type_synonym 'a act = "fs \<Rightarrow> (error + 'a) \<times> event list \<times> fs"

definition ret :: "'a \<Rightarrow> 'a act" where
  "ret x s = (Inr x, [], s)"

definition raise :: "error \<Rightarrow> 'a act" where
  "raise e s = (Inl e, [], s)"

definition lift :: "error + 'a \<Rightarrow> 'a act" where
  "lift r s = (r, [], s)"

definition emit :: "event \<Rightarrow> unit act" where
  "emit e s = (Inr (), [e], s)"

text \<open>A library or OS call: the attempt is recorded, then it raises or returns.\<close>

definition call :: "sys \<Rightarrow> event \<Rightarrow> unit act" where
  "call y e s = (case fails y e of Some err \<Rightarrow> (Inl err, [e], s) | None \<Rightarrow> (Inr (), [e], s))"

definition bindA :: "'a act \<Rightarrow> ('a \<Rightarrow> 'b act) \<Rightarrow> 'b act" where
  "bindA m f s =
     (case m s of
        (Inl e, t, s') \<Rightarrow> (Inl e, t, s')
      | (Inr x, t, s') \<Rightarrow> (case f x s' of (r, t', s'') \<Rightarrow> (r, t @ t', s'')))"

definition bindE :: "error + 'a \<Rightarrow> ('a \<Rightarrow> error + 'b) \<Rightarrow> error + 'b" where
  "bindE r f = (case r of Inl e \<Rightarrow> Inl e | Inr x \<Rightarrow> f x)"

definition result :: "(error + 'a) \<times> event list \<times> fs \<Rightarrow> error + 'a" where
  "result o3 = fst o3"

definition events :: "(error + 'a) \<times> event list \<times> fs \<Rightarrow> event list" where
  "events o3 = fst (snd o3)"

definition final :: "(error + 'a) \<times> event list \<times> fs \<Rightarrow> fs" where
  "final o3 = snd (snd o3)"

section \<open>Python's lookups\<close>

text \<open>\<^verbatim>\<open>d[k]\<close> with a string key: KeyError on a dict without it, TypeError elsewhere.\<close>

fun subscript :: "yaml \<Rightarrow> string \<Rightarrow> error + yaml" where
  "subscript (YMap kvs) k = (case map_of kvs (YStr k) of None \<Rightarrow> Inl KeyError | Some v \<Rightarrow> Inr v)"
| "subscript v k = Inl TypeError"

text \<open>\<^verbatim>\<open>d.get(k, default)\<close>: only a dict has the method.\<close>

fun py_get :: "yaml \<Rightarrow> string \<Rightarrow> yaml \<Rightarrow> error + yaml" where
  "py_get (YMap kvs) k d = Inr (case map_of kvs (YStr k) of None \<Rightarrow> d | Some v \<Rightarrow> v)"
| "py_get v k d = Inl AttributeError"

text \<open>\<^verbatim>\<open>int(x)\<close> for \<^verbatim>\<open>x = os.environ.get(..)\<close>: TypeError on None, ValueError on a bad string.\<close>

definition py_int :: "sys \<Rightarrow> string option \<Rightarrow> error + int" where
  "py_int y x =
     (case x of
        None \<Rightarrow> Inl TypeError
      | Some s \<Rightarrow> (case int_of_str y s of None \<Rightarrow> Inl ValueError | Some n \<Rightarrow> Inr n))"

text \<open>A value inside an f-string, and \<^verbatim>\<open>str(v)\<close>: a string is itself.\<close>

definition py_str :: "sys \<Rightarrow> yaml \<Rightarrow> string" where
  "py_str y v = (case v of YStr s \<Rightarrow> s | _ \<Rightarrow> str_of y v)"

text \<open>\<^verbatim>\<open>os.path.join(a, b)\<close> of posixpath.\<close>

definition path_join :: "string \<Rightarrow> string \<Rightarrow> string" where
  "path_join a b =
     (if b \<noteq> [] \<and> hd b = CHR ''/'' then b
      else if a = [] \<or> last a = CHR ''/'' then a @ b
      else a @ ''/'' @ b)"

section \<open>The file system operations\<close>

text \<open>\<^verbatim>\<open>open(path, "r")\<close> and \<^verbatim>\<open>f.read()\<close>.\<close>

definition open_read :: "sys \<Rightarrow> string \<Rightarrow> string act" where
  "open_read y path =
     bindA (call y (OpenRead path)) (\<lambda>_ s.
       if path \<in> dirs s then (Inl IsADirectoryError, [], s)
       else (case files s path of
               None \<Rightarrow> (Inl FileNotFoundError, [], s)
             | Some c \<Rightarrow> (Inr c, [], s)))"

text \<open>
  \<^verbatim>\<open>os.makedirs(path)\<close> with \<^verbatim>\<open>exist_ok\<close> left False: FileExistsError when the
  path exists. Only the leaf is tracked; any other failure comes from \<open>fails\<close>.
\<close>

definition makedirs :: "sys \<Rightarrow> string \<Rightarrow> unit act" where
  "makedirs y path =
     bindA (emit (MakeDirs path)) (\<lambda>_ s.
       if path \<in> dirs s \<or> files s path \<noteq> None then (Inl FileExistsError, [], s)
       else (case fails y (MakeDirs path) of
               Some err \<Rightarrow> (Inl err, [], s)
             | None \<Rightarrow> (Inr (), [], s\<lparr>dirs := insert path (dirs s)\<rparr>)))"

text \<open>\<^verbatim>\<open>open(path, "w")\<close>: the file is created or truncated.\<close>

definition open_write :: "sys \<Rightarrow> string \<Rightarrow> unit act" where
  "open_write y path =
     bindA (call y (OpenWrite path)) (\<lambda>_ s.
       if path \<in> dirs s then (Inl IsADirectoryError, [], s)
       else (Inr (), [], s\<lparr>files := (files s)(path \<mapsto> [])\<rparr>))"

text \<open>\<^verbatim>\<open>yaml.dump(value, f)\<close> on the file opened at \<open>path\<close>.\<close>

definition yaml_dump :: "sys \<Rightarrow> string \<Rightarrow> yaml \<Rightarrow> unit act" where
  "yaml_dump y path v =
     bindA (call y (YamlDump path v)) (\<lambda>_ s.
       (Inr (), [], s\<lparr>files := (files s)(path \<mapsto> dump y v)\<rparr>))"

section \<open>The local tabular dataset (lines 25-65)\<close>

text \<open>\<^verbatim>\<open>pd.read_csv(path)\<close>: the file is opened and its contents parsed.\<close>

definition read_csv :: "sys \<Rightarrow> string \<Rightarrow> dataframe act" where
  "read_csv y path =
     bindA (call y (ReadCsv path)) (\<lambda>_ s.
       if path \<in> dirs s then (Inl IsADirectoryError, [], s)
       else (case files s path of
               None \<Rightarrow> (Inl FileNotFoundError, [], s)
             | Some c \<Rightarrow> (csv_parse y c, [], s)))"

text \<open>Lines 26-34.\<close>

definition LocalSubjectsDataset_init ::
  "sys \<Rightarrow> string \<Rightarrow> string \<Rightarrow> transform_t option \<Rightarrow> local_subjects_dataset act" where
  "LocalSubjectsDataset_init y csv_file image_dir_arg tr =
     bindA (read_csv y csv_file) (\<lambda>df.
     ret \<lparr>data = df, image_dir = image_dir_arg, transform_of = tr,
          features = [(''imageA'', ''PIL.Image''), (''prompt'', ''str''),
                      (''imageB'', ''PIL.Image'')]\<rparr>)"

text \<open>Lines 36-37.\<close>

definition LocalSubjectsDataset_len :: "local_subjects_dataset \<Rightarrow> nat" where
  "LocalSubjectsDataset_len self = length (rows (data self))"

text \<open>\<^verbatim>\<open>df.iloc[idx]\<close>: a negative index counts from the end, IndexError out of range.\<close>

definition iloc :: "dataframe \<Rightarrow> int \<Rightarrow> error + yaml list" where
  "iloc df idx =
     (let n = int (length (rows df)); j = (if idx < 0 then n + idx else idx)
      in if 0 \<le> j \<and> j < n then Inr (rows df ! nat j) else Inl IndexError)"

text \<open>\<^verbatim>\<open>row[label]\<close>: KeyError without the label, a Series when several columns carry it.\<close>

definition row_get :: "dataframe \<Rightarrow> yaml list \<Rightarrow> string \<Rightarrow> error + field" where
  "row_get df r label =
     (case map snd (filter (\<lambda>cv. fst cv = label) (zip (columns df) r)) of
        [] \<Rightarrow> Inl KeyError
      | [v] \<Rightarrow> Inr (Scalar v)
      | vs \<Rightarrow> Inr (Series vs))"

definition cell :: "dataframe \<Rightarrow> int \<Rightarrow> string \<Rightarrow> error + field" where
  "cell df idx label = bindE (iloc df idx) (\<lambda>r. row_get df r label)"

text \<open>Lines 42-43 and 48-49: a Series is replaced by its first value.\<close>

definition first_if_series :: "field \<Rightarrow> error + yaml" where
  "first_if_series f =
     (case f of
        Scalar v \<Rightarrow> Inr v
      | Series vs \<Rightarrow> (case vs of [] \<Rightarrow> Inl IndexError | v # _ \<Rightarrow> Inr v))"

text \<open>\<^verbatim>\<open>Image.open(path)\<close>.\<close>

definition image_open :: "sys \<Rightarrow> string \<Rightarrow> image act" where
  "image_open y path =
     bindA (call y (OpenImage path)) (\<lambda>_ s.
       if path \<in> dirs s then (Inl IsADirectoryError, [], s)
       else (case files s path of
               None \<Rightarrow> (Inl FileNotFoundError, [], s)
             | Some c \<Rightarrow> (image_decode y c, [], s)))"

definition convert :: "string \<Rightarrow> image \<Rightarrow> image" where
  "convert m im = im\<lparr>img_mode := m\<rparr>"

fun apply_op :: "transform_op \<Rightarrow> image \<Rightarrow> image" where
  "apply_op (Resize h w) im = im\<lparr>img_width := w, img_height := h\<rparr>"

fun apply_transform :: "transform_t \<Rightarrow> image \<Rightarrow> image" where
  "apply_transform (Compose ops) im = fold apply_op ops im"

text \<open>Lines 62-65: the module's transform.\<close>

definition transform :: transform_t where
  "transform = Compose [Resize 600 600]"

text \<open>Lines 39-60.\<close>

definition LocalSubjectsDataset_getitem ::
  "sys \<Rightarrow> local_subjects_dataset \<Rightarrow> int \<Rightarrow> sample act" where
  "LocalSubjectsDataset_getitem y self idx =
     bindA (lift (bindE (cell (data self) idx ''imageA'') first_if_series)) (\<lambda>imgA_value.
     bindA (lift (cell (data self) idx ''prompt'')) (\<lambda>prompt_value.
     bindA (lift (bindE (cell (data self) idx ''imageB'') first_if_series)) (\<lambda>imgB_value.
     bindA (image_open y (path_join (image_dir self) (py_str y imgA_value))) (\<lambda>a.
     bindA (image_open y (path_join (image_dir self) (py_str y imgB_value))) (\<lambda>b.
     ret (case transform_of self of
            None \<Rightarrow> \<lparr>imageA = convert ''RGB'' a, prompt = prompt_value,
                       imageB = convert ''RGB'' b\<rparr>
          | Some tr \<Rightarrow> \<lparr>imageA = apply_transform tr (convert ''RGB'' a),
                         prompt = prompt_value,
                         imageB = apply_transform tr (convert ''RGB'' b)\<rparr>))))))"

section \<open>Rank, configuration, metrics backend (lines 68-90)\<close>

text \<open>Lines 68-73: the bare \<^verbatim>\<open>except\<close> turns every failure of \<^verbatim>\<open>int\<close> into rank 0.\<close>

definition get_rank :: "sys \<Rightarrow> int act" where
  "get_rank y =
     bindA (emit (GetEnv ''LOCAL_RANK'')) (\<lambda>_.
     ret (case py_int y (env y ''LOCAL_RANK'') of Inl _ \<Rightarrow> 0 | Inr r \<Rightarrow> r))"

text \<open>Lines 76-81.\<close>

definition get_config :: "sys \<Rightarrow> yaml act" where
  "get_config y =
     bindA (emit (GetEnv ''XFL_CONFIG'')) (\<lambda>_.
     case env y ''XFL_CONFIG'' of
       None \<Rightarrow> raise AssertionError
     | Some config_path \<Rightarrow>
         bindA (open_read y config_path) (\<lambda>content.
         bindA (emit (YamlSafeLoad content)) (\<lambda>_.
         lift (safe_load y content))))"

text \<open>Lines 84-90.\<close>

definition init_wandb :: "sys \<Rightarrow> yaml \<Rightarrow> string \<Rightarrow> unit act" where
  "init_wandb y wandb_config name =
     bindA (call y ImportWandb) (\<lambda>_.
     bindA (lift (subscript wandb_config ''project'')) (\<lambda>project.
     call y (WandbInit [(''project'', project), (''name'', YStr name),
                        (''config'', YMap [])])))"

section \<open>The entry point (lines 93-210), stage by stage\<close>

text \<open>The locals every later stage reads.\<close>

record ctx =
  is_main_process :: bool
  rank :: int
  config :: yaml
  training_config :: yaml
  run_name :: string

text \<open>Lines 95-99.\<close>

definition initialize :: "sys \<Rightarrow> ctx act" where
  "initialize y =
     bindA (get_rank y) (\<lambda>r0.
     bindA (get_rank y) (\<lambda>r1.
     bindA (call y (CudaSetDevice r1)) (\<lambda>_.
     bindA (get_config y) (\<lambda>cfg.
     bindA (lift (subscript cfg ''train'')) (\<lambda>tc.
     bindA (emit (Strftime ''%Y%m%d-%H%M%S'')) (\<lambda>_.
     ret \<lparr>is_main_process = (r0 = 0), rank = r1, config = cfg, training_config = tc,
          run_name = strftime y ''%Y%m%d-%H%M%S''\<rparr>))))))"

text \<open>Lines 101-104.\<close>

definition initialize_wandb :: "sys \<Rightarrow> ctx \<Rightarrow> unit act" where
  "initialize_wandb y c =
     bindA (lift (py_get (training_config c) ''wandb'' YNull)) (\<lambda>wandb_config.
     if wandb_config \<noteq> YNull \<and> is_main_process c
     then init_wandb y wandb_config (run_name c)
     else ret ())"

text \<open>Lines 106-108.\<close>

definition print_rank :: "ctx \<Rightarrow> unit act" where
  "print_rank c =
     bindA (emit (Print [YStr ''Rank:'', YInt (rank c)])) (\<lambda>_.
     if is_main_process c then emit (Print [YStr ''Config:'', config c]) else ret ())"

text \<open>\<^verbatim>\<open>training_config["dataset"][k]\<close>.\<close>

definition dataset_opt :: "yaml \<Rightarrow> string \<Rightarrow> error + yaml" where
  "dataset_opt tc k = bindE (subscript tc ''dataset'') (\<lambda>d. subscript d k)"

text \<open>Lines 119-125 and, the same again, 149-155: the keyword arguments in order.\<close>

definition padded_kwargs :: "yaml \<Rightarrow> error + kwargs" where
  "padded_kwargs tc =
     bindE (dataset_opt tc ''condition_size'') (\<lambda>condition_size.
     bindE (dataset_opt tc ''target_size'') (\<lambda>target_size.
     bindE (dataset_opt tc ''image_size'') (\<lambda>image_size.
     bindE (dataset_opt tc ''padding'') (\<lambda>padding.
     bindE (subscript tc ''condition_type'') (\<lambda>condition_type.
     bindE (dataset_opt tc ''drop_text_prob'') (\<lambda>drop_text_prob.
     bindE (dataset_opt tc ''drop_image_prob'') (\<lambda>drop_image_prob.
     Inr [(''condition_size'', condition_size), (''target_size'', target_size),
          (''image_size'', image_size), (''padding'', padding),
          (''condition_type'', condition_type), (''drop_text_prob'', drop_text_prob),
          (''drop_image_prob'', drop_image_prob)])))))))"

text \<open>Lines 138-143.\<close>

definition img_kwargs :: "yaml \<Rightarrow> error + kwargs" where
  "img_kwargs tc =
     bindE (dataset_opt tc ''condition_size'') (\<lambda>condition_size.
     bindE (dataset_opt tc ''target_size'') (\<lambda>target_size.
     bindE (subscript tc ''condition_type'') (\<lambda>condition_type.
     bindE (dataset_opt tc ''drop_text_prob'') (\<lambda>drop_text_prob.
     bindE (dataset_opt tc ''drop_image_prob'') (\<lambda>drop_image_prob.
     bindE (bindE (subscript tc ''dataset'') (\<lambda>d. py_get d ''position_scale'' (YFloat 1)))
       (\<lambda>position_scale.
     Inr [(''condition_size'', condition_size), (''target_size'', target_size),
          (''condition_type'', condition_type), (''drop_text_prob'', drop_text_prob),
          (''drop_image_prob'', drop_image_prob),
          (''position_scale'', position_scale)]))))))"

definition load_dataset :: "sys \<Rightarrow> string \<Rightarrow> kwargs \<Rightarrow> raw_dataset act" where
  "load_dataset y name kw = bindA (call y (LoadDataset name kw)) (\<lambda>_. ret (Hub name kw))"

definition new_adapter :: "sys \<Rightarrow> string \<Rightarrow> raw_dataset \<Rightarrow> kwargs \<Rightarrow> dataset act" where
  "new_adapter y cls raw kw = bindA (call y (NewAdapter cls raw kw)) (\<lambda>_. ret (Adapter cls raw kw))"

definition features_value :: "local_subjects_dataset \<Rightarrow> yaml" where
  "features_value ds = YMap (map (\<lambda>kv. (YStr (fst kv), YStr (snd kv))) (features ds))"

text \<open>Lines 111-160. The tag is looked up again at every \<^verbatim>\<open>elif\<close>, as the source does.\<close>

definition select_dataset :: "sys \<Rightarrow> ctx \<Rightarrow> dataset act" where
  "select_dataset y c =
     bindA (lift (dataset_opt (training_config c) ''type'')) (\<lambda>t1.
     if t1 = YStr ''scene'' then
       bindA (LocalSubjectsDataset_init y ''csv_path'' ''images_path'' (Some transform))
         (\<lambda>data_valid.
       bindA (emit (Print [features_value data_valid])) (\<lambda>_.
       bindA (emit (Print [YInt (int (LocalSubjectsDataset_len data_valid))])) (\<lambda>_.
       bindA (lift (subscript (training_config c) ''dataset'')) (\<lambda>d.
       bindA (emit (Print [d])) (\<lambda>_.
       bindA (lift (padded_kwargs (training_config c))) (\<lambda>kw.
       new_adapter y ''SceneDataset'' (Local data_valid) kw))))))
     else
     bindA (lift (dataset_opt (training_config c) ''type'')) (\<lambda>t2.
     if t2 = YStr ''img'' then
       bindA (lift (dataset_opt (training_config c) ''urls'')) (\<lambda>urls.
       bindA (load_dataset y ''webdataset''
                [(''data_files'', YMap [(YStr ''train'', urls)]), (''split'', YStr ''train''),
                 (''cache_dir'', YStr ''cache/t2i2m''), (''num_proc'', YInt 32)]) (\<lambda>raw.
       bindA (lift (img_kwargs (training_config c))) (\<lambda>kw.
       new_adapter y ''ImageConditionDataset'' raw kw)))
     else
     bindA (lift (dataset_opt (training_config c) ''type'')) (\<lambda>t3.
     if t3 = YStr ''cartoon'' then
       bindA (load_dataset y ''saquiboye/oye-cartoon'' [(''split'', YStr ''train'')]) (\<lambda>raw.
       bindA (lift (padded_kwargs (training_config c))) (\<lambda>kw.
       new_adapter y ''CartoonDataset'' raw kw))
     else
     bindA (lift (dataset_opt (training_config c) ''type'')) (\<lambda>t4.
     if t4 = YStr ''scene'' then raise UnboundLocalError
     else raise NotImplementedError))))"

fun raw_len :: "sys \<Rightarrow> raw_dataset \<Rightarrow> nat" where
  "raw_len y (Local ds) = LocalSubjectsDataset_len ds"
| "raw_len y (Hub name kw) = hub_len y name kw"

text \<open>
  Modelled from the spec: the adapters SceneDataset, ImageConditionDataset and
  CartoonDataset live in \<^verbatim>\<open>src/train/data.py\<close>, which is not among the sources. The spec:
  constructing the adapter "yields an object whose length matches the underlying raw
  source's record count".
\<close>

fun dataset_len :: "sys \<Rightarrow> dataset \<Rightarrow> nat" where
  "dataset_len y (Adapter cls raw kw) = raw_len y raw"

text \<open>Lines 162-169.\<close>

definition make_loader :: "sys \<Rightarrow> ctx \<Rightarrow> dataset \<Rightarrow> loader act" where
  "make_loader y c ds =
     bindA (emit (Print [YStr ''Dataset length:'', YInt (int (dataset_len y ds))])) (\<lambda>_.
     bindA (lift (subscript (training_config c) ''batch_size'')) (\<lambda>batch_size.
     bindA (lift (subscript (training_config c) ''dataloader_workers'')) (\<lambda>num_workers.
     bindA (call y (NewDataLoader ds [(''batch_size'', batch_size), (''shuffle'', YBool True),
                                      (''num_workers'', num_workers)])) (\<lambda>_.
     bindA (emit (Print [YStr ''Trainloader generated.''])) (\<lambda>_.
     ret (DataLoader ds [(''batch_size'', batch_size), (''shuffle'', YBool True),
                         (''num_workers'', num_workers)]))))))"

text \<open>
  Lines 172-180. The arguments are evaluated left to right; \<^verbatim>\<open>getattr(torch, name)\<close>
  is a library lookup, and the dtype is passed on under its name.
\<close>

definition make_model :: "sys \<Rightarrow> ctx \<Rightarrow> model act" where
  "make_model y c =
     bindA (lift (subscript (config c) ''flux_path'')) (\<lambda>flux_path.
     bindA (lift (subscript (training_config c) ''lora_config'')) (\<lambda>lora_config.
     bindA (lift (subscript (config c) ''dtype'')) (\<lambda>dtype.
     bindA (call y (TorchGetAttr dtype)) (\<lambda>_.
     bindA (lift (subscript (training_config c) ''optimizer'')) (\<lambda>optimizer.
     bindA (lift (py_get (config c) ''model'' (YMap []))) (\<lambda>model_config.
     bindA (lift (py_get (training_config c) ''gradient_checkpointing'' (YBool False)))
       (\<lambda>gradient_checkpointing.
     bindA (call y (NewOminiModel
              [(''flux_pipe_id'', flux_path), (''lora_config'', lora_config),
               (''device'', YStr ''cuda''), (''dtype'', dtype),
               (''optimizer_config'', optimizer), (''model_config'', model_config),
               (''gradient_checkpointing'', gradient_checkpointing)])) (\<lambda>_.
     ret (OminiModel
              [(''flux_pipe_id'', flux_path), (''lora_config'', lora_config),
               (''device'', YStr ''cuda''), (''dtype'', dtype),
               (''optimizer_config'', optimizer), (''model_config'', model_config),
               (''gradient_checkpointing'', gradient_checkpointing)])))))))))"

text \<open>Lines 182-186.\<close>

definition make_callbacks :: "sys \<Rightarrow> ctx \<Rightarrow> callback list act" where
  "make_callbacks y c =
     (if is_main_process c
      then bindA (call y (NewTrainingCallback (run_name c) (training_config c))) (\<lambda>_.
           ret [TrainingCallback (run_name c) (training_config c)])
      else ret [])"

text \<open>Lines 195-197: the three keys with a default.\<close>

definition trainer_limits :: "yaml \<Rightarrow> error + kwargs" where
  "trainer_limits tc =
     bindE (py_get tc ''max_steps'' (YInt (- 1))) (\<lambda>max_steps.
     bindE (py_get tc ''max_epochs'' (YInt (- 1))) (\<lambda>max_epochs.
     bindE (py_get tc ''gradient_clip_val'' (YFloat (1 / 2))) (\<lambda>gradient_clip_val.
     Inr [(''max_steps'', max_steps), (''max_epochs'', max_epochs),
          (''gradient_clip_val'', gradient_clip_val)])))"

text \<open>Lines 189-200; the last component of the trainer holds what \<^verbatim>\<open>setattr\<close> adds.\<close>

definition make_trainer :: "sys \<Rightarrow> ctx \<Rightarrow> callback list \<Rightarrow> trainer act" where
  "make_trainer y c training_callbacks =
     bindA (lift (subscript (training_config c) ''accumulate_grad_batches'')) (\<lambda>acc.
     bindA (lift (trainer_limits (training_config c))) (\<lambda>limits.
     bindA (call y (NewTrainer training_callbacks
              ([(''accumulate_grad_batches'', acc), (''enable_checkpointing'', YBool False),
                (''enable_progress_bar'', YBool False), (''logger'', YBool False)] @ limits)))
       (\<lambda>_.
     ret (Trainer training_callbacks
              ([(''accumulate_grad_batches'', acc), (''enable_checkpointing'', YBool False),
                (''enable_progress_bar'', YBool False), (''logger'', YBool False)] @ limits)
              [(''training_config'', training_config c)]))))"

text \<open>Lines 203-207.\<close>

definition output_dir :: "sys \<Rightarrow> yaml \<Rightarrow> string \<Rightarrow> string" where
  "output_dir y save_path name = py_str y save_path @ ''/'' @ name"

definition save_config :: "sys \<Rightarrow> ctx \<Rightarrow> unit act" where
  "save_config y c =
     bindA (lift (py_get (training_config c) ''save_path'' (YStr ''./output''))) (\<lambda>save_path.
     if is_main_process c then
       bindA (makedirs y (output_dir y save_path (run_name c))) (\<lambda>_.
       bindA (open_write y (output_dir y save_path (run_name c) @ ''/config.yaml'')) (\<lambda>_.
       yaml_dump y (output_dir y save_path (run_name c) @ ''/config.yaml'') (config c)))
     else ret ())"

text \<open>Line 210.\<close>

definition fit :: "sys \<Rightarrow> trainer \<Rightarrow> model \<Rightarrow> loader \<Rightarrow> unit act" where
  "fit y tr m l = call y (TrainerFit tr m l)"

text \<open>Everything of \<^verbatim>\<open>main\<close> after its first five lines.\<close>

definition main_from :: "sys \<Rightarrow> ctx \<Rightarrow> unit act" where
  "main_from y c =
     bindA (initialize_wandb y c) (\<lambda>_.
     bindA (print_rank c) (\<lambda>_.
     bindA (select_dataset y c) (\<lambda>ds.
     bindA (make_loader y c ds) (\<lambda>train_loader.
     bindA (make_model y c) (\<lambda>trainable_model.
     bindA (make_callbacks y c) (\<lambda>training_callbacks.
     bindA (make_trainer y c training_callbacks) (\<lambda>tr.
     bindA (save_config y c) (\<lambda>_.
     fit y tr trainable_model train_loader))))))))"

text \<open>Lines 93-210.\<close>

definition main :: "sys \<Rightarrow> unit act" where
  "main y = bindA (initialize y) (main_from y)"

section \<open>The scene adapter and the batch loader\<close>

text \<open>
  Modelled from the spec: SceneDataset lives in \<^verbatim>\<open>src/train/data.py\<close>, which is not among
  the sources. The spec: an adapter output is the record "{condition_image,
  target_image, prompt, condition_type, auxiliary_drop_flags}"; the scene adapter takes
  each raw pair of the local table and "further applies condition/target cropping,
  padding, and independent probabilistic dropout of the text prompt and/or the condition
  image (two independent Bernoulli gates per sample, applied at read time)". The spec
  does not say how the images are cropped and padded nor what a dropped prompt or image
  is replaced by: these are the parameters \<open>adapter_ops\<close>. The two draws of a read are an
  argument, the text gate first.
\<close>

record sample_record =
  condition_image :: image
  target_image :: image
  prompt_text :: string
  condition_type :: yaml
  drop_text :: bool
  drop_image :: bool

record adapter_ops =
  condition_of :: "kwargs \<Rightarrow> sample \<Rightarrow> image"
  target_of :: "kwargs \<Rightarrow> sample \<Rightarrow> image"
  prompt_of :: "sample \<Rightarrow> string"
  drop_condition :: "kwargs \<Rightarrow> image \<Rightarrow> image"
  drop_prompt :: "string \<Rightarrow> string"

definition scene_record :: "adapter_ops \<Rightarrow> kwargs \<Rightarrow> sample \<Rightarrow> bool \<times> bool \<Rightarrow> sample_record" where
  "scene_record ops kw raw draw =
     \<lparr>condition_image =
        (if snd draw then drop_condition ops kw (condition_of ops kw raw)
         else condition_of ops kw raw),
      target_image = target_of ops kw raw,
      prompt_text =
        (if fst draw then drop_prompt ops (prompt_of ops raw) else prompt_of ops raw),
      condition_type = (case map_of kw ''condition_type'' of None \<Rightarrow> YNull | Some v \<Rightarrow> v),
      drop_text = fst draw,
      drop_image = snd draw\<rparr>"

text \<open>
  Modelled from the spec, as above: one read of the scene adapter is one read of the
  local dataset it wraps (lines 39-60 of the source), made into a record.
\<close>

definition SceneDataset_getitem ::
  "adapter_ops \<Rightarrow> sys \<Rightarrow> local_subjects_dataset \<Rightarrow> kwargs \<Rightarrow> int \<Rightarrow> bool \<times> bool \<Rightarrow>
   sample_record act" where
  "SceneDataset_getitem ops y base kw idx draw =
     bindA (LocalSubjectsDataset_getitem y base idx) (\<lambda>raw.
     ret (scene_record ops kw raw draw))"

text \<open>
  Modelled from the spec: the batch loader is torch's DataLoader, which is not among the
  sources. The spec: it "wraps the selected dataset to yield fixed-size, shuffled
  batches", and 4 records with \<^verbatim>\<open>batch_size=2\<close> give "exactly 2 batches per epoch (ceiling
  of 4/2)". An epoch visits the indices of the dataset in the sampler's order, cut into
  runs of the loader's \<^verbatim>\<open>batch_size\<close>, the last run possibly shorter; a batch holds, field
  by field, the records read at its indices. The spec says nothing of a loader whose
  \<^verbatim>\<open>batch_size\<close> is not a positive integer: there the batches are \<open>None\<close>.
\<close>

function chunks :: "nat \<Rightarrow> 'a list \<Rightarrow> 'a list list" where
  "chunks n xs = (if n = 0 \<or> xs = [] then [] else take n xs # chunks n (drop n xs))"
  by pat_completeness auto
termination
  by (relation "measure (\<lambda>p. length (snd p))") auto

declare chunks.simps [simp del]

fun loader_len :: "sys \<Rightarrow> loader \<Rightarrow> nat" where
  "loader_len y (DataLoader d kw) = dataset_len y d"

fun loader_batches :: "loader \<Rightarrow> nat list \<Rightarrow> nat list list option" where
  "loader_batches (DataLoader d kw) order =
     (case map_of kw ''batch_size'' of
        Some (YInt n) \<Rightarrow> if 0 < n then Some (chunks (nat n) order) else None
      | _ \<Rightarrow> None)"

text \<open>The local dataset and the keyword arguments of the scene adapter a loader wraps.\<close>

fun scene_base :: "loader \<Rightarrow> (local_subjects_dataset \<times> kwargs) option" where
  "scene_base (DataLoader (Adapter cls (Local base) akw) kw) =
     (if cls = ''SceneDataset'' then Some (base, akw) else None)"
| "scene_base (DataLoader (Adapter cls (Hub n hkw) akw) kw) = None"

record batch =
  condition_images :: "image list"
  target_images :: "image list"
  prompts :: "string list"
  condition_types :: "yaml list"
  drop_flags :: "(bool \<times> bool) list"

definition collate :: "sample_record list \<Rightarrow> batch" where
  "collate xs =
     \<lparr>condition_images = map condition_image xs, target_images = map target_image xs,
      prompts = map prompt_text xs, condition_types = map condition_type xs,
      drop_flags = map (\<lambda>x. (drop_text x, drop_image x)) xs\<rparr>"

fun fetch_records ::
  "adapter_ops \<Rightarrow> sys \<Rightarrow> local_subjects_dataset \<Rightarrow> kwargs \<Rightarrow> (nat \<Rightarrow> bool \<times> bool) \<Rightarrow>
   nat list \<Rightarrow> sample_record list act" where
  "fetch_records ops y base kw draws [] = ret []"
| "fetch_records ops y base kw draws (i # is) =
     bindA (SceneDataset_getitem ops y base kw (int i) (draws i)) (\<lambda>x.
     bindA (fetch_records ops y base kw draws is) (\<lambda>xs. ret (x # xs)))"

definition fetch_batch ::
  "adapter_ops \<Rightarrow> sys \<Rightarrow> local_subjects_dataset \<Rightarrow> kwargs \<Rightarrow> (nat \<Rightarrow> bool \<times> bool) \<Rightarrow>
   nat list \<Rightarrow> batch act" where
  "fetch_batch ops y base kw draws b =
     bindA (fetch_records ops y base kw draws b) (\<lambda>xs. ret (collate xs))"

section \<open>Stages and kinds of events\<close>

datatype stage =
    LoadConfig | PickRank | InitMetrics | BuildDataset | BuildLoader | BuildModel
  | BuildDriver | PersistConfig | CallFit

text \<open>The stage an event belongs to; printing and reading the clock belong to none.\<close>

fun stage_of :: "event \<Rightarrow> stage option" where
  "stage_of (GetEnv v) =
     (if v = ''LOCAL_RANK'' then Some PickRank
      else if v = ''XFL_CONFIG'' then Some LoadConfig else None)"
| "stage_of (CudaSetDevice r) = Some PickRank"
| "stage_of (OpenRead p) = Some LoadConfig"
| "stage_of (YamlSafeLoad c) = Some LoadConfig"
| "stage_of (Strftime f) = None"
| "stage_of ImportWandb = Some InitMetrics"
| "stage_of (WandbInit kw) = Some InitMetrics"
| "stage_of (Print vs) = None"
| "stage_of (ReadCsv p) = Some BuildDataset"
| "stage_of (LoadDataset n kw) = Some BuildDataset"
| "stage_of (NewAdapter cls raw kw) = Some BuildDataset"
| "stage_of (NewDataLoader ds kw) = Some BuildLoader"
| "stage_of (TorchGetAttr v) = Some BuildModel"
| "stage_of (NewOminiModel kw) = Some BuildModel"
| "stage_of (NewTrainingCallback n tc) = Some BuildDriver"
| "stage_of (NewTrainer cbs kw) = Some BuildDriver"
| "stage_of (MakeDirs p) = Some PersistConfig"
| "stage_of (OpenWrite p) = Some PersistConfig"
| "stage_of (YamlDump p v) = Some PersistConfig"
| "stage_of (OpenImage p) = None"
| "stage_of (TrainerFit tr m l) = Some CallFit"

text \<open>The order the spec gives: the configuration first, then the rank.\<close>

fun spec_order :: "stage \<Rightarrow> nat" where
  "spec_order LoadConfig = 0"
| "spec_order PickRank = 1"
| "spec_order InitMetrics = 2"
| "spec_order BuildDataset = 3"
| "spec_order BuildLoader = 4"
| "spec_order BuildModel = 5"
| "spec_order BuildDriver = 6"
| "spec_order PersistConfig = 7"
| "spec_order CallFit = 8"

text \<open>The order of the source: the rank first (line 95), then the configuration (line 97).\<close>

fun code_order :: "stage \<Rightarrow> nat" where
  "code_order PickRank = 0"
| "code_order LoadConfig = 1"
| "code_order InitMetrics = 2"
| "code_order BuildDataset = 3"
| "code_order BuildLoader = 4"
| "code_order BuildModel = 5"
| "code_order BuildDriver = 6"
| "code_order PersistConfig = 7"
| "code_order CallFit = 8"

definition stages :: "event list \<Rightarrow> stage list" where
  "stages t = List.map_filter stage_of t"

fun is_write :: "event \<Rightarrow> bool" where
  "is_write (MakeDirs p) = True"
| "is_write (OpenWrite p) = True"
| "is_write (YamlDump p v) = True"
| "is_write e = False"

fun is_fit :: "event \<Rightarrow> bool" where
  "is_fit (TrainerFit tr m l) = True"
| "is_fit e = False"

text \<open>Dataset I/O and adapter construction.\<close>

fun is_dataset_event :: "event \<Rightarrow> bool" where
  "is_dataset_event (ReadCsv p) = True"
| "is_dataset_event (LoadDataset n kw) = True"
| "is_dataset_event (NewAdapter cls raw kw) = True"
| "is_dataset_event (NewDataLoader ds kw) = True"
| "is_dataset_event (OpenImage p) = True"
| "is_dataset_event e = False"

fun is_model_event :: "event \<Rightarrow> bool" where
  "is_model_event (TorchGetAttr v) = True"
| "is_model_event (NewOminiModel kw) = True"
| "is_model_event (NewTrainer cbs kw) = True"
| "is_model_event (TrainerFit tr m l) = True"
| "is_model_event e = False"

fun is_metrics_event :: "event \<Rightarrow> bool" where
  "is_metrics_event ImportWandb = True"
| "is_metrics_event (WandbInit kw) = True"
| "is_metrics_event e = False"

fun is_callback_event :: "event \<Rightarrow> bool" where
  "is_callback_event (NewTrainingCallback n tc) = True"
| "is_callback_event e = False"

text \<open>The callback list every driver construction in a trace of events was given.\<close>

fun trainer_callbacks :: "event list \<Rightarrow> callback list list" where
  "trainer_callbacks [] = []"
| "trainer_callbacks (NewTrainer cbs kw # t) = cbs # trainer_callbacks t"
| "trainer_callbacks (e # t) = trainer_callbacks t"

text \<open>The keyword arguments every driver construction in a trace of events was given.\<close>

fun trainer_kwargs :: "event list \<Rightarrow> kwargs list" where
  "trainer_kwargs [] = []"
| "trainer_kwargs (NewTrainer cbs kw # t) = kw # trainer_kwargs t"
| "trainer_kwargs (e # t) = trainer_kwargs t"

text \<open>The paths of the CSV files a trace of events reads.\<close>

fun csv_reads :: "event list \<Rightarrow> string list" where
  "csv_reads [] = []"
| "csv_reads (ReadCsv p # t) = p # csv_reads t"
| "csv_reads (e # t) = csv_reads t"

text \<open>The local datasets the adapters of a trace of events were built around.\<close>

fun adapted_locals :: "event list \<Rightarrow> local_subjects_dataset list" where
  "adapted_locals [] = []"
| "adapted_locals (NewAdapter cls (Local ds) kw # t) = ds # adapted_locals t"
| "adapted_locals (e # t) = adapted_locals t"

text \<open>What every action of a family emits, and whether it leaves the file system alone.\<close>

definition emits :: "(event \<Rightarrow> bool) \<Rightarrow> 'a act \<Rightarrow> bool" where
  "emits P m = (\<forall>s. list_all P (events (m s)))"

definition keeps_fs :: "'a act \<Rightarrow> bool" where
  "keeps_fs m = (\<forall>s. final (m s) = s)"

section \<open>A concrete run\<close>

definition demo_dataset :: "yaml \<Rightarrow> yaml" where
  "demo_dataset t =
     YMap [(YStr ''type'', t), (YStr ''csv_file'', YStr ''data/train.csv''),
           (YStr ''image_dir'', YStr ''data/images''), (YStr ''urls'', YList []),
           (YStr ''condition_size'', YInt 512), (YStr ''target_size'', YInt 512),
           (YStr ''image_size'', YInt 512), (YStr ''padding'', YInt 8),
           (YStr ''drop_text_prob'', YFloat (1 / 10)),
           (YStr ''drop_image_prob'', YFloat (1 / 10))]"

definition demo_train :: "yaml \<Rightarrow> (yaml \<times> yaml) list \<Rightarrow> yaml" where
  "demo_train t extra =
     YMap ([(YStr ''dataset'', demo_dataset t), (YStr ''condition_type'', YStr ''scene''),
            (YStr ''batch_size'', YInt 2), (YStr ''dataloader_workers'', YInt 0),
            (YStr ''lora_config'', YMap [(YStr ''r'', YInt 4)]),
            (YStr ''optimizer'', YMap [(YStr ''type'', YStr ''AdamW'')]),
            (YStr ''accumulate_grad_batches'', YInt 1)] @ extra)"

definition demo_config :: "yaml \<Rightarrow> (yaml \<times> yaml) list \<Rightarrow> yaml" where
  "demo_config t extra =
     YMap [(YStr ''flux_path'', YStr ''flux''), (YStr ''dtype'', YStr ''bfloat16''),
           (YStr ''train'', demo_train t extra)]"

definition demo_table :: dataframe where
  "demo_table =
     \<lparr>columns = [''imageA'', ''prompt'', ''imageB''],
      rows = [[YStr ''a0.png'', YStr ''p0'', YStr ''b0.png''],
              [YStr ''a1.png'', YStr ''p1'', YStr ''b1.png''],
              [YStr ''a2.png'', YStr ''p2'', YStr ''b2.png''],
              [YStr ''a3.png'', YStr ''p3'', YStr ''b3.png'']]\<rparr>"

definition demo_sys :: "(string \<times> string) list \<Rightarrow> yaml \<Rightarrow> sys" where
  "demo_sys vars cfg =
     \<lparr>env = map_of vars,
      int_of_str = (\<lambda>s. if s = ''0'' then Some 0 else if s = ''1'' then Some 1 else None),
      str_of = (\<lambda>v. ''?''),
      strftime = (\<lambda>f. ''20260101-000000''),
      safe_load = (\<lambda>s. if s = ''config'' then Inr cfg else Inl (LibraryError ''yaml'')),
      dump = (\<lambda>v. ''dumped''),
      csv_parse = (\<lambda>s. if s = ''table'' then Inr demo_table else Inl (LibraryError ''csv'')),
      image_decode = (\<lambda>s. Inr \<lparr>img_bytes = s, img_mode = ''L'', img_width = 10,
                                 img_height = 20\<rparr>),
      hub_len = (\<lambda>n kw. 0),
      fails = (\<lambda>e. None)\<rparr>"

definition demo_fs :: fs where
  "demo_fs =
     \<lparr>dirs = {''images_path''},
      files = map_of [(''train.yaml'', ''config''), (''csv_path'', ''table''),
                      (''images_path/a0.png'', ''A0''), (''images_path/b0.png'', ''B0''),
                      (''images_path/a1.png'', ''A1''), (''images_path/b1.png'', ''B1''),
                      (''images_path/a2.png'', ''A2''), (''images_path/b2.png'', ''B2''),
                      (''images_path/a3.png'', ''A3''), (''images_path/b3.png'', ''B3'')]\<rparr>"

definition rank0 :: "(string \<times> string) list" where
  "rank0 = [(''XFL_CONFIG'', ''train.yaml''), (''LOCAL_RANK'', ''0'')]"

definition rank1 :: "(string \<times> string) list" where
  "rank1 = [(''XFL_CONFIG'', ''train.yaml''), (''LOCAL_RANK'', ''1'')]"

text \<open>The locals of the concrete run after its first lines, for a rank and a dataset tag.\<close>

definition demo_ctx :: "int \<Rightarrow> yaml \<Rightarrow> (yaml \<times> yaml) list \<Rightarrow> ctx" where
  "demo_ctx r t extra =
     \<lparr>is_main_process = (r = 0), rank = r, config = demo_config t extra,
      training_config = demo_train t extra, run_name = ''20260101-000000''\<rparr>"

section \<open>Vocabulary of the statements\<close>

fun is_dump :: "event \<Rightarrow> bool" where
  "is_dump (YamlDump p v) = True"
| "is_dump e = False"

text \<open>Line 205: the directory the primary process creates.\<close>

definition config_dir :: "sys \<Rightarrow> ctx \<Rightarrow> string" where
  "config_dir y c =
     (case py_get (training_config c) ''save_path'' (YStr ''./output'') of
        Inl e \<Rightarrow> []
      | Inr save_path \<Rightarrow> output_dir y save_path (run_name c))"

text \<open>Line 206: the file the copy of the configuration goes to.\<close>

definition config_file :: "sys \<Rightarrow> ctx \<Rightarrow> string" where
  "config_file y c = config_dir y c @ ''/config.yaml''"

text \<open>An outcome with events put in front of its own.\<close>

definition prepend ::
  "event list \<Rightarrow> (error + 'a) \<times> event list \<times> fs \<Rightarrow> (error + 'a) \<times> event list \<times> fs" where
  "prepend pre o3 = (result o3, pre @ events o3, final o3)"

text \<open>
  An action that, from every file system, emits events of \<open>P\<close> without touching the file
  system and then either fails or continues as one of the actions of \<open>K\<close>.
\<close>

definition runs_into :: "(event \<Rightarrow> bool) \<Rightarrow> ('a act \<Rightarrow> bool) \<Rightarrow> 'a act \<Rightarrow> bool" where
  "runs_into P K m =
     (\<forall>s. \<exists>pre. list_all P pre \<and>
        ((\<exists>err. m s = (Inl err, pre, s)) \<or> (\<exists>k. K k \<and> m s = prepend pre (k s))))"

text \<open>Lines 203-210: persisting the configuration, then the call of the driver.\<close>

definition persist_then_fit :: "sys \<Rightarrow> ctx \<Rightarrow> trainer \<Rightarrow> model \<Rightarrow> loader \<Rightarrow> unit act" where
  "persist_then_fit y c tr m l = bindA (save_config y c) (\<lambda>_. fit y tr m l)"

text \<open>The stages of the events an action emits come in the order of the source.\<close>

definition ordered_between :: "nat \<Rightarrow> nat \<Rightarrow> 'a act \<Rightarrow> bool" where
  "ordered_between lo hi m =
     (\<forall>s. sorted (map code_order (stages (events (m s)))) \<and>
          list_all (\<lambda>k. lo \<le> k \<and> k \<le> hi) (map code_order (stages (events (m s)))))"

text \<open>
  The file system a first primary run of the concrete configuration leaves behind: a
  second run started within the same second finds its output directory there.
\<close>

definition taken_fs :: fs where
  "taken_fs = final (main (demo_sys rank0 (demo_config (YStr ''scene'') [])) demo_fs)"

text \<open>An image file that opens: the call goes through, the path is a file, the bytes decode.\<close>

definition decoded :: "sys \<Rightarrow> fs \<Rightarrow> string \<Rightarrow> image option" where
  "decoded y s p =
     (if fails y (OpenImage p) = None \<and> p \<notin> dirs s
      then (case files s p of
              None \<Rightarrow> None
            | Some c \<Rightarrow> (case image_decode y c of Inl e \<Rightarrow> None | Inr im \<Rightarrow> Some im))
      else None)"

text \<open>
  The raw pair the spec promises of one row of the scene format ("columns imageA,
  prompt, imageB, where imageA/imageB are filenames resolved relative to" the image
  directory, "each raw pair ... resized to a fixed size"): the two files of the row,
  decoded, in RGB at 600 by 600, with the row's prompt. \<open>None\<close> when the row is not of that
  format or an image does not open. The source's \<^verbatim>\<open>__getitem__\<close> is compared with it.
\<close>

fun row_sample :: "sys \<Rightarrow> fs \<Rightarrow> string \<Rightarrow> yaml list \<Rightarrow> sample option" where
  "row_sample y s d [YStr a, YStr p, YStr b] =
     (case decoded y s (path_join d a) of
        None \<Rightarrow> None
      | Some ia \<Rightarrow>
          (case decoded y s (path_join d b) of
             None \<Rightarrow> None
           | Some ib \<Rightarrow>
               Some \<lparr>imageA = ia\<lparr>img_mode := ''RGB'', img_width := 600, img_height := 600\<rparr>,
                     prompt = Scalar (YStr p),
                     imageB = ib\<lparr>img_mode := ''RGB'', img_width := 600, img_height := 600\<rparr>\<rparr>))"
| "row_sample y s d r = None"

text \<open>Line 112 with the table read: the local dataset of a scene run.\<close>

definition scene_local :: "dataframe \<Rightarrow> local_subjects_dataset" where
  "scene_local df =
     \<lparr>data = df, image_dir = ''images_path'', transform_of = Some transform,
      features = [(''imageA'', ''PIL.Image''), (''prompt'', ''str''),
                  (''imageB'', ''PIL.Image'')]\<rparr>"

text \<open>Lines 163-168 with \<^verbatim>\<open>batch_size=2\<close> and \<^verbatim>\<open>dataloader_workers=0\<close>.\<close>

definition loader_kwargs_2_0 :: kwargs where
  "loader_kwargs_2_0 =
     [(''batch_size'', YInt 2), (''shuffle'', YBool True), (''num_workers'', YInt 0)]"

text \<open>The objects of the concrete run, and an instance of the adapter's parameters.\<close>

definition demo_adapter_kwargs :: kwargs where
  "demo_adapter_kwargs =
     [(''condition_size'', YInt 512), (''target_size'', YInt 512), (''image_size'', YInt 512),
      (''padding'', YInt 8), (''condition_type'', YStr ''scene''),
      (''drop_text_prob'', YFloat (1 / 10)), (''drop_image_prob'', YFloat (1 / 10))]"

definition demo_loader :: loader where
  "demo_loader =
     DataLoader (Adapter ''SceneDataset'' (Local (scene_local demo_table)) demo_adapter_kwargs)
       loader_kwargs_2_0"

definition demo_model :: model where
  "demo_model =
     OminiModel
       [(''flux_pipe_id'', YStr ''flux''), (''lora_config'', YMap [(YStr ''r'', YInt 4)]),
        (''device'', YStr ''cuda''), (''dtype'', YStr ''bfloat16''),
        (''optimizer_config'', YMap [(YStr ''type'', YStr ''AdamW'')]),
        (''model_config'', YMap []), (''gradient_checkpointing'', YBool False)]"

definition demo_trainer :: trainer where
  "demo_trainer =
     Trainer []
       [(''accumulate_grad_batches'', YInt 1), (''enable_checkpointing'', YBool False),
        (''enable_progress_bar'', YBool False), (''logger'', YBool False),
        (''max_steps'', YInt (- 1)), (''max_epochs'', YInt (- 1)),
        (''gradient_clip_val'', YFloat (1 / 2))]
       [(''training_config'', demo_train (YStr ''scene'') [])]"

definition demo_ops :: adapter_ops where
  "demo_ops =
     \<lparr>condition_of = (\<lambda>kw x. imageA x), target_of = (\<lambda>kw x. imageB x),
      prompt_of = (\<lambda>x. case prompt x of Scalar (YStr p) \<Rightarrow> p | _ \<Rightarrow> []),
      drop_condition = (\<lambda>kw im. im\<lparr>img_bytes := []\<rparr>), drop_prompt = (\<lambda>p. [])\<rparr>"

text \<open>Draws for the concrete epoch: the prompt of index 3 is dropped, nothing else.\<close>

definition demo_draws :: "nat \<Rightarrow> bool \<times> bool" where
  "demo_draws i = (i = 3, False)"

section \<open>Properties\<close>

subsection \<open>Reading off an action's result, events and final file system\<close>

lemma ret_simps [simp]:
  "result (ret x s) = Inr x" "events (ret x s) = []" "final (ret x s) = s"
  by (simp_all add: ret_def result_def events_def final_def)

lemma raise_simps [simp]:
  "result (raise e s) = Inl e" "events (raise e s) = []" "final (raise e s) = s"
  by (simp_all add: raise_def result_def events_def final_def)

lemma lift_simps [simp]:
  "result (lift r s) = r" "events (lift r s) = []" "final (lift r s) = s"
  by (simp_all add: lift_def result_def events_def final_def)

lemma emit_simps [simp]:
  "result (emit e s) = Inr ()" "events (emit e s) = [e]" "final (emit e s) = s"
  by (simp_all add: emit_def result_def events_def final_def)

lemma call_simps [simp]:
  "result (call y e s) = (case fails y e of Some err \<Rightarrow> Inl err | None \<Rightarrow> Inr ())"
  "events (call y e s) = [e]" "final (call y e s) = s"
  by (simp_all add: call_def result_def events_def final_def split: option.split)

lemma result_bindA:
  "result (bindA m f s) =
     (case result (m s) of Inl e \<Rightarrow> Inl e | Inr x \<Rightarrow> result (f x (final (m s))))"
  by (simp add: bindA_def result_def final_def split: prod.split sum.split)

lemma events_bindA:
  "events (bindA m f s) =
     (case result (m s) of
        Inl e \<Rightarrow> events (m s)
      | Inr x \<Rightarrow> events (m s) @ events (f x (final (m s))))"
  by (simp add: bindA_def result_def events_def final_def split: prod.split sum.split)

lemma final_bindA:
  "final (bindA m f s) =
     (case result (m s) of Inl e \<Rightarrow> final (m s) | Inr x \<Rightarrow> final (f x (final (m s))))"
  by (simp add: bindA_def result_def final_def split: prod.split sum.split)

lemmas bindA_simps = result_bindA events_bindA final_bindA

lemma act_eqI:
  "result a = r \<Longrightarrow> events a = t \<Longrightarrow> final a = s \<Longrightarrow> a = (r, t, s)"
  by (auto simp: result_def events_def final_def)

subsection \<open>Rank detection\<close>

lemma get_rank_simps [simp]:
  "result (get_rank y s) = Inr (case py_int y (env y ''LOCAL_RANK'') of Inl e \<Rightarrow> 0 | Inr r \<Rightarrow> r)"
  "events (get_rank y s) = [GetEnv ''LOCAL_RANK'']"
  "final (get_rank y s) = s"
  by (simp_all add: get_rank_def bindA_simps)

text \<open>
  C9. Rank detection never fails: in every environment \<open>get_rank\<close> returns an integer,
  having only read the variable. When \<^verbatim>\<open>LOCAL_RANK\<close> is unset or is not an integer
  literal, the rank is 0, and a run that gets through its first lines then takes itself
  for the primary process.
\<close>

theorem get_rank_never_fails:
  "(\<exists>r. get_rank y s = (Inr r, [GetEnv ''LOCAL_RANK''], s)) \<and>
   ((env y ''LOCAL_RANK'' = None \<or>
     (\<exists>v. env y ''LOCAL_RANK'' = Some v \<and> int_of_str y v = None)) \<longrightarrow>
    result (get_rank y s) = Inr 0 \<and>
    (\<forall>c. result (initialize y s) = Inr c \<longrightarrow> is_main_process c \<and> rank c = 0))"
proof (intro conjI impI)
  show "\<exists>r. get_rank y s = (Inr r, [GetEnv ''LOCAL_RANK''], s)"
    by (intro exI act_eqI) simp_all
next
  assume "env y ''LOCAL_RANK'' = None \<or>
     (\<exists>v. env y ''LOCAL_RANK'' = Some v \<and> int_of_str y v = None)"
  then have bad: "\<exists>e. py_int y (env y ''LOCAL_RANK'') = Inl e"
    by (auto simp: py_int_def)
  then show "result (get_rank y s) = Inr 0"
    by auto
  from bad show "\<forall>c. result (initialize y s) = Inr c \<longrightarrow> is_main_process c \<and> rank c = 0"
    by (auto simp: initialize_def bindA_simps split: sum.splits option.splits)
qed

theorem get_rank_never_fails_witness:
  "env (demo_sys [(''LOCAL_RANK'', ''cuda:0'')] YNull) ''LOCAL_RANK'' = Some ''cuda:0'' \<and>
   int_of_str (demo_sys [(''LOCAL_RANK'', ''cuda:0'')] YNull) ''cuda:0'' = None \<and>
   result (get_rank (demo_sys [(''LOCAL_RANK'', ''cuda:0'')] YNull) demo_fs) = Inr 0"
  using get_rank_never_fails [of "demo_sys [(''LOCAL_RANK'', ''cuda:0'')] YNull" demo_fs]
  by (simp add: demo_sys_def)

subsection \<open>What an action emits, and whether it touches the file system\<close>

lemma tuple_simps [simp]:
  "result (r, t, s) = r" "events (r, t, s) = t" "final (r, t, s) = s"
  by (simp_all add: result_def events_def final_def)

lemma emits_mono: "emits Q m \<Longrightarrow> (\<And>e. Q e \<Longrightarrow> P e) \<Longrightarrow> emits P m"
  by (auto simp: emits_def list_all_iff)

lemma emits_ret: "emits P (ret x)"
  by (simp add: emits_def)

lemma emits_raise: "emits P (raise e)"
  by (simp add: emits_def)

lemma emits_lift: "emits P (lift r)"
  by (simp add: emits_def)

lemma emits_emit: "P e \<Longrightarrow> emits P (emit e)"
  by (simp add: emits_def)

lemma emits_call: "P e \<Longrightarrow> emits P (call y e)"
  by (simp add: emits_def)

lemma emits_bindA: "emits P m \<Longrightarrow> (\<And>x. emits P (f x)) \<Longrightarrow> emits P (bindA m f)"
  by (auto simp: emits_def events_bindA split: sum.split)

lemma emits_bindA_result:
  "emits P m \<Longrightarrow> (\<And>x s. result (m s) = Inr x \<Longrightarrow> emits P (f x)) \<Longrightarrow> emits P (bindA m f)"
  by (auto simp: emits_def events_bindA split: sum.split)

lemmas emits_intros = emits_ret emits_raise emits_lift emits_emit emits_call emits_bindA

lemma keeps_ret: "keeps_fs (ret x)"
  by (simp add: keeps_fs_def)

lemma keeps_raise: "keeps_fs (raise e)"
  by (simp add: keeps_fs_def)

lemma keeps_lift: "keeps_fs (lift r)"
  by (simp add: keeps_fs_def)

lemma keeps_emit: "keeps_fs (emit e)"
  by (simp add: keeps_fs_def)

lemma keeps_call: "keeps_fs (call y e)"
  by (simp add: keeps_fs_def)

lemma keeps_bindA: "keeps_fs m \<Longrightarrow> (\<And>x. keeps_fs (f x)) \<Longrightarrow> keeps_fs (bindA m f)"
  by (auto simp: keeps_fs_def final_bindA split: sum.split)

lemmas keeps_intros = keeps_ret keeps_raise keeps_lift keeps_emit keeps_call keeps_bindA

subsection \<open>The readers\<close>

lemma open_read_simps [simp]:
  "result (open_read y p s) =
     (case fails y (OpenRead p) of
        Some err \<Rightarrow> Inl err
      | None \<Rightarrow> if p \<in> dirs s then Inl IsADirectoryError
                else (case files s p of None \<Rightarrow> Inl FileNotFoundError | Some c \<Rightarrow> Inr c))"
  "events (open_read y p s) = [OpenRead p]"
  "final (open_read y p s) = s"
  by (simp_all add: open_read_def bindA_simps split: option.split)

lemma read_csv_simps [simp]:
  "result (read_csv y p s) =
     (case fails y (ReadCsv p) of
        Some err \<Rightarrow> Inl err
      | None \<Rightarrow> if p \<in> dirs s then Inl IsADirectoryError
                else (case files s p of None \<Rightarrow> Inl FileNotFoundError | Some c \<Rightarrow> csv_parse y c))"
  "events (read_csv y p s) = [ReadCsv p]"
  "final (read_csv y p s) = s"
  by (simp_all add: read_csv_def bindA_simps split: option.split)

lemma image_open_simps [simp]:
  "result (image_open y p s) =
     (case fails y (OpenImage p) of
        Some err \<Rightarrow> Inl err
      | None \<Rightarrow> if p \<in> dirs s then Inl IsADirectoryError
                else (case files s p of None \<Rightarrow> Inl FileNotFoundError | Some c \<Rightarrow> image_decode y c))"
  "events (image_open y p s) = [OpenImage p]"
  "final (image_open y p s) = s"
  by (simp_all add: image_open_def bindA_simps split: option.split)

lemma get_config_simps:
  "result (get_config y s) =
     (case env y ''XFL_CONFIG'' of
        None \<Rightarrow> Inl AssertionError
      | Some p \<Rightarrow> (case result (open_read y p s) of Inl e \<Rightarrow> Inl e | Inr c \<Rightarrow> safe_load y c))"
  "final (get_config y s) = s"
  by (simp_all add: get_config_def bindA_simps split: option.split sum.split)

lemma emits_get_config:
  assumes "P (GetEnv ''XFL_CONFIG'')" "\<And>p. P (OpenRead p)" "\<And>c. P (YamlSafeLoad c)"
  shows "emits P (get_config y)"
  using assms
  by (auto simp: emits_def get_config_def events_bindA split: option.split sum.split)

lemma emits_get_rank: "P (GetEnv ''LOCAL_RANK'') \<Longrightarrow> emits P (get_rank y)"
  by (simp add: emits_def)

subsection \<open>The stages, one by one\<close>

text \<open>
  For each stage: a property of events holds of all it emits as soon as it holds of the
  events the stage can attempt; and the stages before the configuration is persisted
  leave the file system alone.
\<close>

lemma emits_initialize:
  assumes "P (GetEnv ''LOCAL_RANK'')" "\<And>r. P (CudaSetDevice r)" "P (GetEnv ''XFL_CONFIG'')"
    "\<And>p. P (OpenRead p)" "\<And>c. P (YamlSafeLoad c)" "\<And>f. P (Strftime f)"
  shows "emits P (initialize y)"
  unfolding initialize_def
  by (intro emits_intros emits_get_rank emits_get_config assms)

lemma keeps_initialize: "keeps_fs (initialize y)"
  unfolding initialize_def keeps_fs_def
  by (simp add: bindA_simps get_config_simps split: sum.split option.split)

lemma emits_init_wandb:
  assumes "P ImportWandb" "\<And>kw. P (WandbInit kw)"
  shows "emits P (init_wandb y w n)"
  unfolding init_wandb_def
  by (intro emits_intros assms)

lemma emits_initialize_wandb:
  assumes "is_main_process c \<Longrightarrow> P ImportWandb" "\<And>kw. is_main_process c \<Longrightarrow> P (WandbInit kw)"
  shows "emits P (initialize_wandb y c)"
  unfolding initialize_wandb_def
  by (intro emits_intros) (auto intro!: emits_init_wandb emits_ret assms)

lemma keeps_initialize_wandb: "keeps_fs (initialize_wandb y c)"
  unfolding initialize_wandb_def init_wandb_def
  by (intro keeps_intros) (auto intro!: keeps_intros)

lemma emits_print_rank:
  assumes "\<And>vs. P (Print vs)"
  shows "emits P (print_rank c)"
  unfolding print_rank_def
  by (intro emits_intros) (auto intro!: emits_intros assms)

lemma keeps_print_rank: "keeps_fs (print_rank c)"
  unfolding print_rank_def
  by (intro keeps_intros) (auto intro!: keeps_intros)

lemma emits_if: "(b \<Longrightarrow> emits P m) \<Longrightarrow> (\<not> b \<Longrightarrow> emits P m') \<Longrightarrow> emits P (if b then m else m')"
  by simp

lemma keeps_if: "(b \<Longrightarrow> keeps_fs m) \<Longrightarrow> (\<not> b \<Longrightarrow> keeps_fs m') \<Longrightarrow> keeps_fs (if b then m else m')"
  by simp

lemma emits_read_csv: "P (ReadCsv p) \<Longrightarrow> emits P (read_csv y p)"
  by (simp add: emits_def)

lemma keeps_read_csv: "keeps_fs (read_csv y p)"
  by (simp add: keeps_fs_def)

lemma emits_LocalSubjectsDataset_init:
  "P (ReadCsv p) \<Longrightarrow> emits P (LocalSubjectsDataset_init y p d tr)"
  unfolding LocalSubjectsDataset_init_def
  by (intro emits_intros emits_read_csv)

lemma keeps_LocalSubjectsDataset_init: "keeps_fs (LocalSubjectsDataset_init y p d tr)"
  unfolding LocalSubjectsDataset_init_def
  by (intro keeps_intros keeps_read_csv)

lemma emits_load_dataset: "P (LoadDataset n kw) \<Longrightarrow> emits P (load_dataset y n kw)"
  unfolding load_dataset_def
  by (intro emits_intros)

lemma keeps_load_dataset: "keeps_fs (load_dataset y n kw)"
  unfolding load_dataset_def
  by (intro keeps_intros)

lemma emits_new_adapter: "P (NewAdapter cls raw kw) \<Longrightarrow> emits P (new_adapter y cls raw kw)"
  unfolding new_adapter_def
  by (intro emits_intros)

lemma keeps_new_adapter: "keeps_fs (new_adapter y cls raw kw)"
  unfolding new_adapter_def
  by (intro keeps_intros)

lemma emits_select_dataset:
  assumes "\<And>vs. P (Print vs)" "P (ReadCsv ''csv_path'')" "\<And>n kw. P (LoadDataset n kw)"
    "\<And>cls raw kw. P (NewAdapter cls raw kw)"
  shows "emits P (select_dataset y c)"
  unfolding select_dataset_def
  by (intro emits_intros emits_if emits_LocalSubjectsDataset_init emits_load_dataset
        emits_new_adapter assms)

lemma keeps_select_dataset: "keeps_fs (select_dataset y c)"
  unfolding select_dataset_def
  by (intro keeps_intros keeps_if keeps_LocalSubjectsDataset_init keeps_load_dataset
        keeps_new_adapter)

lemma emits_make_loader:
  assumes "\<And>vs. P (Print vs)" "\<And>d kw. P (NewDataLoader d kw)"
  shows "emits P (make_loader y c ds)"
  unfolding make_loader_def
  by (intro emits_intros assms)

lemma keeps_make_loader: "keeps_fs (make_loader y c ds)"
  unfolding make_loader_def
  by (intro keeps_intros)

lemma emits_make_model:
  assumes "\<And>v. P (TorchGetAttr v)" "\<And>kw. P (NewOminiModel kw)"
  shows "emits P (make_model y c)"
  unfolding make_model_def
  by (intro emits_intros assms)

lemma keeps_make_model: "keeps_fs (make_model y c)"
  unfolding make_model_def
  by (intro keeps_intros)

lemma emits_make_callbacks:
  assumes "is_main_process c \<Longrightarrow> P (NewTrainingCallback (run_name c) (training_config c))"
  shows "emits P (make_callbacks y c)"
  unfolding make_callbacks_def
  by (auto intro!: emits_intros assms)

lemma keeps_make_callbacks: "keeps_fs (make_callbacks y c)"
  unfolding make_callbacks_def
  by (auto intro!: keeps_intros)

lemma result_make_callbacks:
  "result (make_callbacks y c s) = Inr cbs \<Longrightarrow>
   cbs = (if is_main_process c then [TrainingCallback (run_name c) (training_config c)] else [])"
  by (auto simp: make_callbacks_def bindA_simps split: if_splits option.splits)

lemma emits_make_trainer:
  assumes "\<And>kw. P (NewTrainer cbs kw)"
  shows "emits P (make_trainer y c cbs)"
  unfolding make_trainer_def
  by (intro emits_intros assms)

lemma keeps_make_trainer: "keeps_fs (make_trainer y c cbs)"
  unfolding make_trainer_def
  by (intro keeps_intros)

lemma emits_fit: "(\<And>tr m l. P (TrainerFit tr m l)) \<Longrightarrow> emits P (fit y tr m l)"
  by (simp add: fit_def emits_def)

lemma keeps_fit: "keeps_fs (fit y tr m l)"
  by (simp add: fit_def keeps_fs_def)

subsection \<open>Failing before anything is built\<close>

lemma result_initialize_no_config:
  assumes "env y ''XFL_CONFIG'' = None"
  shows "\<exists>e. result (initialize y s) = Inl e"
    and "(\<forall>r. fails y (CudaSetDevice r) = None) \<Longrightarrow> result (initialize y s) = Inl AssertionError"
  using assms
  by (auto simp: initialize_def bindA_simps get_config_simps split: sum.split option.split)

lemma main_when_initialize_fails:
  assumes "result (initialize y s) = Inl e"
  shows "result (main y s) = Inl e" "events (main y s) = events (initialize y s)"
    "final (main y s) = s"
  using assms keeps_initialize [of y]
  by (simp_all add: main_def bindA_simps keeps_fs_def)

lemma main_when_initialize_returns:
  assumes "result (initialize y s) = Inr c"
  shows "result (main y s) = result (main_from y c s)"
    "events (main y s) = events (initialize y s) @ events (main_from y c s)"
    "final (main y s) = final (main_from y c s)"
  using assms keeps_initialize [of y]
  by (simp_all add: main_def bindA_simps keeps_fs_def)

text \<open>
  C2. With \<^verbatim>\<open>XFL_CONFIG\<close> unset, \<open>get_config\<close> fails with the assertion; a run then ends
  in an error (the assertion, unless binding the device failed first) with no dataset
  and no model event and the file system untouched. With the variable naming a readable
  file that parses, \<open>get_config\<close> returns the parsed value.
\<close>

theorem missing_config_path_is_fatal:
  "(env y ''XFL_CONFIG'' = None \<longrightarrow>
      result (get_config y s) = Inl AssertionError \<and>
      (\<exists>e. result (main y s) = Inl e) \<and>
      ((\<forall>r. fails y (CudaSetDevice r) = None) \<longrightarrow> result (main y s) = Inl AssertionError) \<and>
      list_all (\<lambda>e. \<not> is_dataset_event e \<and> \<not> is_model_event e) (events (main y s)) \<and>
      final (main y s) = s) \<and>
   (\<forall>path content cfg.
      env y ''XFL_CONFIG'' = Some path \<and> fails y (OpenRead path) = None \<and>
      path \<notin> dirs s \<and> files s path = Some content \<and> safe_load y content = Inr cfg \<longrightarrow>
      result (get_config y s) = Inr cfg)"
proof (intro conjI impI allI)
  assume unset: "env y ''XFL_CONFIG'' = None"
  then show "result (get_config y s) = Inl AssertionError"
    by (simp add: get_config_simps)
  from result_initialize_no_config(1) [OF unset] obtain e
    where e: "result (initialize y s) = Inl e" by blast
  then show "\<exists>e. result (main y s) = Inl e"
    by (auto simp: main_when_initialize_fails)
  have "emits (\<lambda>e. \<not> is_dataset_event e \<and> \<not> is_model_event e) (initialize y)"
    by (rule emits_initialize) simp_all
  with e show "list_all (\<lambda>e. \<not> is_dataset_event e \<and> \<not> is_model_event e) (events (main y s))"
    by (simp add: main_when_initialize_fails emits_def)
  from e show "final (main y s) = s"
    by (simp add: main_when_initialize_fails)
  assume "\<forall>r. fails y (CudaSetDevice r) = None"
  with unset have "result (initialize y s) = Inl AssertionError"
    by (simp add: result_initialize_no_config)
  then show "result (main y s) = Inl AssertionError"
    by (simp add: main_when_initialize_fails)
next
  fix path content cfg
  assume "env y ''XFL_CONFIG'' = Some path \<and> fails y (OpenRead path) = None \<and>
      path \<notin> dirs s \<and> files s path = Some content \<and> safe_load y content = Inr cfg"
  then show "result (get_config y s) = Inr cfg"
    by (simp add: get_config_simps)
qed

theorem missing_config_path_is_fatal_witness:
  "env (demo_sys [(''LOCAL_RANK'', ''0'')] YNull) ''XFL_CONFIG'' = None \<and>
   result (main (demo_sys [(''LOCAL_RANK'', ''0'')] YNull) demo_fs) = Inl AssertionError \<and>
   env (demo_sys rank0 (YInt 7)) ''XFL_CONFIG'' = Some ''train.yaml'' \<and>
   files demo_fs ''train.yaml'' = Some ''config'' \<and>
   result (get_config (demo_sys rank0 (YInt 7)) demo_fs) = Inr (YInt 7)"
  using missing_config_path_is_fatal [of "demo_sys [(''LOCAL_RANK'', ''0'')] YNull" demo_fs]
    missing_config_path_is_fatal [of "demo_sys rank0 (YInt 7)" demo_fs]
  by (simp add: demo_sys_def demo_fs_def rank0_def)

subsection \<open>An unsupported dataset tag\<close>

lemma select_dataset_unsupported:
  assumes "dataset_opt (training_config c) ''type'' = Inr t"
    and "t \<noteq> YStr ''scene''" "t \<noteq> YStr ''img''" "t \<noteq> YStr ''cartoon''"
  shows "select_dataset y c s = (Inl NotImplementedError, [], s)"
  using assms by (intro act_eqI) (simp_all add: select_dataset_def bindA_simps)

text \<open>
  C3. When the tag \<^verbatim>\<open>train.dataset.type\<close> is none of "scene", "img" and "cartoon",
  dataset selection raises NotImplementedError from its last branch, with no event at
  all; a run with such a configuration ends in an error, NotImplementedError once the
  metrics backend is through, and has no dataset, model, callback or write event.
\<close>

theorem unsupported_dataset_type_not_implemented:
  assumes "dataset_opt (training_config c) ''type'' = Inr t"
    and "t \<noteq> YStr ''scene''" "t \<noteq> YStr ''img''" "t \<noteq> YStr ''cartoon''"
  shows "select_dataset y c s = (Inl NotImplementedError, [], s) \<and>
    (result (initialize y s) = Inr c \<longrightarrow>
       (\<exists>e. result (main y s) = Inl e) \<and>
       (result (initialize_wandb y c s) = Inr () \<longrightarrow>
          result (main y s) = Inl NotImplementedError) \<and>
       list_all (\<lambda>e. \<not> is_dataset_event e \<and> \<not> is_model_event e \<and> \<not> is_callback_event e \<and>
                     \<not> is_write e) (events (main y s)) \<and>
       final (main y s) = s)"
proof (intro conjI impI)
  let ?Q = "\<lambda>e. \<not> is_dataset_event e \<and> \<not> is_model_event e \<and> \<not> is_callback_event e \<and>
                     \<not> is_write e"
  show sel: "select_dataset y c s = (Inl NotImplementedError, [], s)"
    by (rule select_dataset_unsupported [OF assms])
  have sel': "\<And>s'. select_dataset y c s' = (Inl NotImplementedError, [], s')"
    by (rule select_dataset_unsupported [OF assms])
  assume init: "result (initialize y s) = Inr c"
  have kw: "\<And>s'. final (initialize_wandb y c s') = s'"
    using keeps_initialize_wandb [of y c] by (simp add: keeps_fs_def)
  have kp: "\<And>s'. final (print_rank c s') = s'"
    using keeps_print_rank [of c] by (simp add: keeps_fs_def)
  have rp: "\<And>s'. result (print_rank c s') = Inr ()"
    by (simp add: print_rank_def bindA_simps)
  show "\<exists>e. result (main y s) = Inl e"
    by (cases "result (initialize_wandb y c s)")
      (simp_all add: main_when_initialize_returns [OF init] main_from_def bindA_simps kw kp rp sel')
  show "final (main y s) = s"
    by (cases "result (initialize_wandb y c s)")
      (simp_all add: main_when_initialize_returns [OF init] main_from_def bindA_simps kw kp rp sel')
  have e1: "list_all ?Q (events (initialize y s))"
    using emits_initialize [of ?Q y] by (simp add: emits_def)
  have e2: "list_all ?Q (events (initialize_wandb y c s))"
    using emits_initialize_wandb [of c ?Q y] by (simp add: emits_def)
  have e3: "list_all ?Q (events (print_rank c s))"
    using emits_print_rank [of ?Q c] by (simp add: emits_def)
  show "list_all ?Q (events (main y s))"
    using e1 e2 e3
    by (cases "result (initialize_wandb y c s)")
      (simp_all add: main_when_initialize_returns [OF init] main_from_def bindA_simps kw kp rp sel')
  assume "result (initialize_wandb y c s) = Inr ()"
  then show "result (main y s) = Inl NotImplementedError"
    by (simp add: main_when_initialize_returns [OF init] main_from_def bindA_simps kw kp rp sel')
qed

lemma demo_initialize:
  assumes "files s ''train.yaml'' = Some ''config''" and "''train.yaml'' \<notin> dirs s"
  shows "result (initialize (demo_sys rank0 (demo_config t extra)) s) = Inr (demo_ctx 0 t extra)"
    and "result (initialize (demo_sys rank1 (demo_config t extra)) s) = Inr (demo_ctx 1 t extra)"
  using assms
  by (simp_all add: initialize_def bindA_simps get_config_simps demo_sys_def rank0_def rank1_def
      py_int_def demo_ctx_def demo_config_def)

theorem unsupported_dataset_type_not_implemented_witness:
  "result (main (demo_sys rank1 (demo_config (YStr ''unsupported'') [])) demo_fs) =
     Inl NotImplementedError \<and>
   list_all (\<lambda>e. \<not> is_dataset_event e \<and> \<not> is_model_event e \<and> \<not> is_callback_event e \<and>
                 \<not> is_write e)
     (events (main (demo_sys rank1 (demo_config (YStr ''unsupported'') [])) demo_fs))"
  using unsupported_dataset_type_not_implemented
    [of "demo_ctx 1 (YStr ''unsupported'') []" "YStr ''unsupported''"
        "demo_sys rank1 (demo_config (YStr ''unsupported'') [])" demo_fs]
  by (simp add: demo_initialize demo_fs_def demo_ctx_def demo_train_def
      demo_dataset_def dataset_opt_def bindE_def initialize_wandb_def bindA_simps)

subsection \<open>Persisting the configuration\<close>

lemma makedirs_simps [simp]:
  "result (makedirs y p s) =
     (if p \<in> dirs s \<or> files s p \<noteq> None then Inl FileExistsError
      else (case fails y (MakeDirs p) of Some err \<Rightarrow> Inl err | None \<Rightarrow> Inr ()))"
  "events (makedirs y p s) = [MakeDirs p]"
  "final (makedirs y p s) =
     (if p \<in> dirs s \<or> files s p \<noteq> None \<or> fails y (MakeDirs p) \<noteq> None then s
      else s\<lparr>dirs := insert p (dirs s)\<rparr>)"
  by (auto simp: makedirs_def bindA_simps split: option.split)

lemma open_write_simps [simp]:
  "result (open_write y p s) =
     (case fails y (OpenWrite p) of
        Some err \<Rightarrow> Inl err
      | None \<Rightarrow> if p \<in> dirs s then Inl IsADirectoryError else Inr ())"
  "events (open_write y p s) = [OpenWrite p]"
  "final (open_write y p s) =
     (if fails y (OpenWrite p) \<noteq> None \<or> p \<in> dirs s then s
      else s\<lparr>files := (files s)(p \<mapsto> [])\<rparr>)"
  by (auto simp: open_write_def bindA_simps split: option.split)

lemma yaml_dump_simps [simp]:
  "result (yaml_dump y p v s) =
     (case fails y (YamlDump p v) of Some err \<Rightarrow> Inl err | None \<Rightarrow> Inr ())"
  "events (yaml_dump y p v s) = [YamlDump p v]"
  "final (yaml_dump y p v s) =
     (if fails y (YamlDump p v) \<noteq> None then s else s\<lparr>files := (files s)(p \<mapsto> dump y v)\<rparr>)"
  by (auto simp: yaml_dump_def bindA_simps split: option.split)


lemma save_config_exists:
  assumes "is_main_process c"
    and "py_get (training_config c) ''save_path'' (YStr ''./output'') = Inr sp"
    and "config_dir y c \<in> dirs s \<or> files s (config_dir y c) \<noteq> None"
  shows "save_config y c s = (Inl FileExistsError, [MakeDirs (config_dir y c)], s)"
  using assms
  by (intro act_eqI) (auto simp: save_config_def bindA_simps config_dir_def)

lemma save_config_events_prefix:
  "events (save_config y c s) = [] \<or>
   events (save_config y c s) = [MakeDirs (config_dir y c)] \<or>
   events (save_config y c s) = [MakeDirs (config_dir y c), OpenWrite (config_file y c)] \<or>
   events (save_config y c s) =
     [MakeDirs (config_dir y c), OpenWrite (config_file y c),
      YamlDump (config_file y c) (config c)]"
  by (auto simp: save_config_def bindA_simps config_dir_def config_file_def
      split: sum.split option.split)


lemma persist_then_fit_simps:
  "result (persist_then_fit y c tr m l s) =
     (case result (save_config y c s) of
        Inl e \<Rightarrow> Inl e
      | Inr u \<Rightarrow> (case fails y (TrainerFit tr m l) of Some err \<Rightarrow> Inl err | None \<Rightarrow> Inr ()))"
  "events (persist_then_fit y c tr m l s) =
     (case result (save_config y c s) of
        Inl e \<Rightarrow> events (save_config y c s)
      | Inr u \<Rightarrow> events (save_config y c s) @ [TrainerFit tr m l])"
  "final (persist_then_fit y c tr m l s) = final (save_config y c s)"
  by (simp_all add: persist_then_fit_def fit_def bindA_simps split: sum.split)

subsection \<open>Everything before the configuration is persisted\<close>

lemma prepend_simps [simp]:
  "result (prepend pre a) = result a" "events (prepend pre a) = pre @ events a"
  "final (prepend pre a) = final a"
  by (simp_all add: prepend_def)

lemma prepend_Nil [simp]: "prepend [] a = a"
  by (simp add: prepend_def result_def events_def final_def)

lemma prepend_prepend [simp]: "prepend p (prepend q a) = prepend (p @ q) a"
  by (simp add: prepend_def)

lemma runs_into_base: "K k \<Longrightarrow> runs_into P K k"
  unfolding runs_into_def
proof
  fix s
  assume "K k"
  then have "list_all P [] \<and> ((\<exists>err. k s = (Inl err, [], s)) \<or> (\<exists>k'. K k' \<and> k s = prepend [] (k' s)))"
    by auto
  then show "\<exists>pre. list_all P pre \<and>
      ((\<exists>err. k s = (Inl err, pre, s)) \<or> (\<exists>k'. K k' \<and> k s = prepend pre (k' s)))"
    by blast
qed

lemma bindA_failed: "result (m s) = Inl e \<Longrightarrow> bindA m f s = (Inl e, events (m s), final (m s))"
  by (intro act_eqI) (simp_all add: bindA_simps)

lemma bindA_returned:
  "result (m s) = Inr x \<Longrightarrow> bindA m f s = prepend (events (m s)) (f x (final (m s)))"
  unfolding prepend_def by (intro act_eqI) (simp_all add: bindA_simps)

lemma runs_into_bindA:
  assumes em: "emits P m" and ke: "keeps_fs m" and rest: "\<And>x. runs_into P K (f x)"
  shows "runs_into P K (bindA m f)"
  unfolding runs_into_def
proof
  fix s
  have pm: "list_all P (events (m s))" and fm: "final (m s) = s"
    using em ke by (simp_all add: emits_def keeps_fs_def)
  show "\<exists>pre. list_all P pre \<and>
      ((\<exists>err. bindA m f s = (Inl err, pre, s)) \<or> (\<exists>k. K k \<and> bindA m f s = prepend pre (k s)))"
  proof (cases "result (m s)")
    case (Inl e)
    then have "bindA m f s = (Inl e, events (m s), s)"
      using fm by (simp add: bindA_failed)
    with pm show ?thesis by blast
  next
    case (Inr x)
    then have b: "bindA m f s = prepend (events (m s)) (f x s)"
      using fm by (simp add: bindA_returned)
    from rest [of x] obtain pre where pre: "list_all P pre"
      and alt: "(\<exists>err. f x s = (Inl err, pre, s)) \<or> (\<exists>k. K k \<and> f x s = prepend pre (k s))"
      unfolding runs_into_def by blast
    from alt show ?thesis
    proof
      assume "\<exists>err. f x s = (Inl err, pre, s)"
      then obtain err where "f x s = (Inl err, pre, s)" by blast
      with b have "bindA m f s = (Inl err, events (m s) @ pre, s)"
        by (simp add: prepend_def)
      moreover have "list_all P (events (m s) @ pre)"
        using pm pre by simp
      ultimately show ?thesis by blast
    next
      assume "\<exists>k. K k \<and> f x s = prepend pre (k s)"
      then obtain k where "K k" and "f x s = prepend pre (k s)" by blast
      with b have "K k \<and> bindA m f s = prepend (events (m s) @ pre) (k s)"
        by simp
      moreover have "list_all P (events (m s) @ pre)"
        using pm pre by simp
      ultimately show ?thesis by blast
    qed
  qed
qed

lemma main_from_runs_into:
  assumes "\<And>vs. P (Print vs)" "is_main_process c \<Longrightarrow> P ImportWandb"
    "\<And>kw. is_main_process c \<Longrightarrow> P (WandbInit kw)" "P (ReadCsv ''csv_path'')"
    "\<And>n kw. P (LoadDataset n kw)" "\<And>cls raw kw. P (NewAdapter cls raw kw)"
    "\<And>d kw. P (NewDataLoader d kw)" "\<And>v. P (TorchGetAttr v)" "\<And>kw. P (NewOminiModel kw)"
    "is_main_process c \<Longrightarrow> P (NewTrainingCallback (run_name c) (training_config c))"
    "\<And>cbs kw. P (NewTrainer cbs kw)"
  shows "runs_into P (\<lambda>k. \<exists>tr m l. k = persist_then_fit y c tr m l) (main_from y c)"
  unfolding main_from_def
  apply (rule runs_into_bindA [OF emits_initialize_wandb keeps_initialize_wandb], (rule assms, assumption)+)
  apply (rule runs_into_bindA [OF emits_print_rank keeps_print_rank], rule assms)
  apply (rule runs_into_bindA [OF emits_select_dataset keeps_select_dataset], (rule assms)+)
  apply (rule runs_into_bindA [OF emits_make_loader keeps_make_loader], (rule assms)+)
  apply (rule runs_into_bindA [OF emits_make_model keeps_make_model], (rule assms)+)
  apply (rule runs_into_bindA [OF emits_make_callbacks keeps_make_callbacks], (rule assms, assumption)+)
  apply (rule runs_into_bindA [OF emits_make_trainer keeps_make_trainer], (rule assms)+)
  apply (rule runs_into_base)
  apply (auto simp: persist_then_fit_def)
  done

subsection \<open>The shape of a whole run\<close>

lemma result_initialize:
  assumes "result (initialize y s) = Inr c"
  shows "is_main_process c = (rank c = 0)"
    and "result (get_config y s) = Inr (config c)"
    and "subscript (config c) ''train'' = Inr (training_config c)"
    and "run_name c = strftime y ''%Y%m%d-%H%M%S''"
  using assms
  by (auto simp: initialize_def bindA_simps get_config_simps split: sum.splits option.splits)

lemma main_shape:
  assumes init: "result (initialize y s) = Inr c"
  shows "\<exists>pre. list_all (\<lambda>e. \<not> is_write e \<and> \<not> is_fit e) pre \<and>
           ((\<exists>err. main y s = (Inl err, pre, s)) \<or>
            (\<exists>tr m l. main y s = prepend pre (persist_then_fit y c tr m l s)))"
proof -
  let ?P = "\<lambda>e. \<not> is_write e \<and> \<not> is_fit e"
  have i: "list_all ?P (events (initialize y s))"
    using emits_initialize [of ?P y] by (simp add: emits_def)
  have fi: "final (initialize y s) = s"
    using keeps_initialize [of y] by (simp add: keeps_fs_def)
  have m: "main y s = prepend (events (initialize y s)) (main_from y c s)"
    unfolding main_def using bindA_returned [of "initialize y" s c "main_from y"] init fi by simp
  have "runs_into ?P (\<lambda>k. \<exists>tr m l. k = persist_then_fit y c tr m l) (main_from y c)"
    by (rule main_from_runs_into) simp_all
  then obtain pre where pre: "list_all ?P pre"
    and alt: "(\<exists>err. main_from y c s = (Inl err, pre, s)) \<or>
              (\<exists>tr m l. main_from y c s = prepend pre (persist_then_fit y c tr m l s))"
    unfolding runs_into_def by blast
  have both: "list_all ?P (events (initialize y s) @ pre)"
    using i pre by simp
  from alt show ?thesis
  proof
    assume "\<exists>err. main_from y c s = (Inl err, pre, s)"
    then obtain err where "main_from y c s = (Inl err, pre, s)" by blast
    with m have "main y s = (Inl err, events (initialize y s) @ pre, s)"
      by (simp add: prepend_def)
    with both show ?thesis by blast
  next
    assume "\<exists>tr m l. main_from y c s = prepend pre (persist_then_fit y c tr m l s)"
    then obtain tr mo l where "main_from y c s = prepend pre (persist_then_fit y c tr mo l s)"
      by blast
    with m have "main y s = prepend (events (initialize y s) @ pre) (persist_then_fit y c tr mo l s)"
      by simp
    with both show ?thesis by blast
  qed
qed

lemma is_dump_is_write: "is_dump e \<Longrightarrow> is_write e"
  by (cases e) simp_all


lemma no_fit_before: "list_all (\<lambda>e. \<not> is_write e \<and> \<not> is_fit e) pre \<Longrightarrow> filter is_fit pre = []"
  by (induction pre) auto



lemma fits_of_tail: "length (filter is_fit (events (persist_then_fit y c tr m l s))) \<le> 1"
  using save_config_events_prefix [of y c s]
  by (auto simp: persist_then_fit_simps split: sum.split)


lemma demo_scene_returns:
  "result (main (demo_sys rank0 (demo_config (YStr ''scene'') [])) demo_fs) = Inr ()"
  "result (main (demo_sys rank1 (demo_config (YStr ''scene'') [])) demo_fs) = Inr ()"
  by code_simp+

lemma demo_config_dir:
  "config_dir (demo_sys vars cfg) (demo_ctx r t []) = ''./output/20260101-000000''"
  by (simp add: config_dir_def demo_ctx_def demo_train_def output_dir_def py_str_def)


subsection \<open>An output directory that is already there\<close>

lemma persist_then_fit_exists:
  assumes "is_main_process c"
    and "py_get (training_config c) ''save_path'' (YStr ''./output'') = Inr sp"
    and "config_dir y c \<in> dirs s \<or> files s (config_dir y c) \<noteq> None"
  shows "persist_then_fit y c tr m l s = (Inl FileExistsError, [MakeDirs (config_dir y c)], s)"
  using save_config_exists [OF assms]
  by (intro act_eqI) (simp_all add: persist_then_fit_simps)

lemma not_member_before:
  "list_all (\<lambda>e. \<not> is_write e \<and> \<not> is_fit e) pre \<Longrightarrow> is_write e \<Longrightarrow> e \<notin> set pre"
  by (auto simp: list_all_iff)

text \<open>
  C10. On the primary process, when \<^verbatim>\<open>{save_path}/{run_name}\<close> already exists (as a
  directory or as a file), persisting the configuration is one attempt at creating the
  directory, which raises FileExistsError and changes nothing. A run in that situation
  always ends in an error; it ends in FileExistsError as soon as it gets to the creation
  of the directory; it never opens or dumps \<^verbatim>\<open>config.yaml\<close>, never calls the driver's
  fit, and leaves the file system as it was.
\<close>

theorem existing_output_dir_aborts_run:
  assumes init: "result (initialize y s) = Inr c"
    and primary: "is_main_process c"
    and sp: "py_get (training_config c) ''save_path'' (YStr ''./output'') = Inr save_path"
    and ex: "config_dir y c \<in> dirs s \<or> files s (config_dir y c) \<noteq> None"
  shows "save_config y c s = (Inl FileExistsError, [MakeDirs (config_dir y c)], s) \<and>
    (\<exists>e. result (main y s) = Inl e) \<and>
    (MakeDirs (config_dir y c) \<in> set (events (main y s)) \<longrightarrow>
       result (main y s) = Inl FileExistsError) \<and>
    list_all (\<lambda>e. \<not> is_fit e \<and> \<not> is_dump e \<and> e \<noteq> OpenWrite (config_file y c))
      (events (main y s)) \<and>
    final (main y s) = s"
proof -
  let ?Q = "\<lambda>e. \<not> is_fit e \<and> \<not> is_dump e \<and> e \<noteq> OpenWrite (config_file y c)"
  have stage: "save_config y c s = (Inl FileExistsError, [MakeDirs (config_dir y c)], s)"
    by (rule save_config_exists [OF primary sp ex])
  from main_shape [OF init] obtain pre where pre: "list_all (\<lambda>e. \<not> is_write e \<and> \<not> is_fit e) pre"
    and alt: "(\<exists>err. main y s = (Inl err, pre, s)) \<or>
              (\<exists>tr m l. main y s = prepend pre (persist_then_fit y c tr m l s))"
    by blast
  have q: "list_all ?Q pre"
    using pre by (auto simp: list_all_iff dest: is_dump_is_write)
  have nomk: "MakeDirs (config_dir y c) \<notin> set pre"
    by (rule not_member_before [OF pre]) simp
  from alt have "(\<exists>e. result (main y s) = Inl e) \<and>
    (MakeDirs (config_dir y c) \<in> set (events (main y s)) \<longrightarrow>
       result (main y s) = Inl FileExistsError) \<and>
    list_all ?Q (events (main y s)) \<and> final (main y s) = s"
  proof
    assume "\<exists>err. main y s = (Inl err, pre, s)"
    then obtain err where "main y s = (Inl err, pre, s)" by blast
    then show ?thesis using q nomk by simp
  next
    assume "\<exists>tr m l. main y s = prepend pre (persist_then_fit y c tr m l s)"
    then obtain tr m l where "main y s = prepend pre (persist_then_fit y c tr m l s)"
      by blast
    then have "main y s = (Inl FileExistsError, pre @ [MakeDirs (config_dir y c)], s)"
      by (simp add: persist_then_fit_exists [OF primary sp ex] prepend_def)
    then show ?thesis using q by simp
  qed
  with stage show ?thesis by blast
qed

lemma taken_fs_facts:
  "''./output/20260101-000000'' \<in> dirs taken_fs"
  "files taken_fs ''train.yaml'' = Some ''config''"
  "''train.yaml'' \<notin> dirs taken_fs"
  unfolding taken_fs_def by code_simp+

lemma taken_run_gets_to_makedirs:
  "MakeDirs ''./output/20260101-000000''
     \<in> set (events (main (demo_sys rank0 (demo_config (YStr ''scene'') [])) taken_fs))"
  by code_simp

theorem existing_output_dir_aborts_run_witness:
  "is_main_process (demo_ctx 0 (YStr ''scene'') []) \<and>
   ''./output/20260101-000000'' \<in> dirs taken_fs \<and>
   result (main (demo_sys rank0 (demo_config (YStr ''scene'') [])) taken_fs) =
     Inl FileExistsError \<and>
   list_all (\<lambda>e. \<not> is_fit e \<and> \<not> is_dump e \<and> e \<noteq> OpenWrite ''./output/20260101-000000/config.yaml'')
     (events (main (demo_sys rank0 (demo_config (YStr ''scene'') [])) taken_fs)) \<and>
   final (main (demo_sys rank0 (demo_config (YStr ''scene'') [])) taken_fs) = taken_fs"
  using existing_output_dir_aborts_run
      [of "demo_sys rank0 (demo_config (YStr ''scene'') [])" taken_fs
          "demo_ctx 0 (YStr ''scene'') []" "YStr ''./output''"]
    taken_run_gets_to_makedirs
  by (simp add: demo_initialize taken_fs_facts demo_config_dir config_file_def)
     (simp add: demo_ctx_def demo_train_def)

subsection \<open>Every event of a run\<close>

lemma emits_save_config:
  assumes "\<And>p. is_main_process c \<Longrightarrow> P (MakeDirs p)" "\<And>p. is_main_process c \<Longrightarrow> P (OpenWrite p)"
    "\<And>p. is_main_process c \<Longrightarrow> P (YamlDump p (config c))"
  shows "emits P (save_config y c)"
  using assms
  by (auto simp: emits_def save_config_def events_bindA split: sum.split)

lemma emits_make_trainer_exact:
  assumes "\<And>acc limits. trainer_limits (training_config c) = Inr limits \<Longrightarrow>
      P (NewTrainer cbs
           ([(''accumulate_grad_batches'', acc), (''enable_checkpointing'', YBool False),
             (''enable_progress_bar'', YBool False), (''logger'', YBool False)] @ limits))"
  shows "emits P (make_trainer y c cbs)"
  using assms
  by (auto simp: emits_def make_trainer_def events_bindA split: sum.split)

lemma emits_main_from:
  assumes "\<And>vs. P (Print vs)" "is_main_process c \<Longrightarrow> P ImportWandb"
    "\<And>kw. is_main_process c \<Longrightarrow> P (WandbInit kw)" "P (ReadCsv ''csv_path'')"
    "\<And>n kw. P (LoadDataset n kw)" "\<And>cls raw kw. P (NewAdapter cls raw kw)"
    "\<And>d kw. P (NewDataLoader d kw)" "\<And>v. P (TorchGetAttr v)" "\<And>kw. P (NewOminiModel kw)"
    "is_main_process c \<Longrightarrow> P (NewTrainingCallback (run_name c) (training_config c))"
    "\<And>acc limits. trainer_limits (training_config c) = Inr limits \<Longrightarrow>
      P (NewTrainer
           (if is_main_process c then [TrainingCallback (run_name c) (training_config c)] else [])
           ([(''accumulate_grad_batches'', acc), (''enable_checkpointing'', YBool False),
             (''enable_progress_bar'', YBool False), (''logger'', YBool False)] @ limits))"
    "\<And>p. is_main_process c \<Longrightarrow> P (MakeDirs p)" "\<And>p. is_main_process c \<Longrightarrow> P (OpenWrite p)"
    "\<And>p. is_main_process c \<Longrightarrow> P (YamlDump p (config c))"
    "\<And>tr m l. P (TrainerFit tr m l)"
  shows "emits P (main_from y c)"
  unfolding main_from_def
  apply (rule emits_bindA [OF emits_initialize_wandb], (rule assms, assumption)+)
  apply (rule emits_bindA [OF emits_print_rank], rule assms)
  apply (rule emits_bindA [OF emits_select_dataset], (rule assms)+)
  apply (rule emits_bindA [OF emits_make_loader], (rule assms)+)
  apply (rule emits_bindA [OF emits_make_model], (rule assms)+)
  apply (rule emits_bindA_result [OF emits_make_callbacks], (rule assms, assumption)+)
  apply (drule result_make_callbacks)
  apply (rule emits_bindA [OF emits_make_trainer_exact])
   apply (simp only:)
   apply (rule assms, assumption)
  apply (rule emits_bindA [OF emits_save_config], (rule assms, assumption)+)
  apply (rule emits_fit, rule assms)
  done

lemma events_main:
  assumes init: "result (initialize y s) = Inr c"
    and i: "emits P (initialize y)" and m: "emits P (main_from y c)"
  shows "list_all P (events (main y s))"
  using i m by (simp add: main_when_initialize_returns [OF init] emits_def)

lemma trainer_callbacks_all:
  "list_all (\<lambda>e. \<forall>cbs kw. e = NewTrainer cbs kw \<longrightarrow> Q cbs) t \<Longrightarrow> list_all Q (trainer_callbacks t)"
  by (induction t rule: trainer_callbacks.induct) simp_all

lemma trainer_kwargs_all:
  "list_all (\<lambda>e. \<forall>cbs kw. e = NewTrainer cbs kw \<longrightarrow> Q kw) t \<Longrightarrow> list_all Q (trainer_kwargs t)"
  by (induction t rule: trainer_kwargs.induct) simp_all

subsection \<open>The observability hook\<close>

text \<open>
  C6, as the source has it. In a run that got through its first lines: the process is
  primary exactly when its rank is 0; a training callback is constructed only on the
  primary process, and then from the run name and the training configuration; every
  driver is given the list of that one callback on the primary process and the empty
  list elsewhere; and a process that is not primary constructs no callback and never
  initialises the metrics backend. Nothing is said about this being the only test of
  the rank: a process that is not primary also attempts no write.
\<close>

theorem observability_hook_only_on_primary:
  assumes init: "result (initialize y s) = Inr c"
  shows "is_main_process c = (rank c = 0) \<and>
    list_all (\<lambda>e. is_callback_event e \<longrightarrow>
                is_main_process c \<and> e = NewTrainingCallback (run_name c) (training_config c))
      (events (main y s)) \<and>
    list_all (\<lambda>cbs. cbs = (if is_main_process c
                            then [TrainingCallback (run_name c) (training_config c)] else []))
      (trainer_callbacks (events (main y s))) \<and>
    (\<not> is_main_process c \<longrightarrow>
       list_all (\<lambda>e. \<not> is_callback_event e \<and> \<not> is_metrics_event e \<and> \<not> is_write e)
         (events (main y s)))"
proof (intro conjI impI)
  show "is_main_process c = (rank c = 0)"
    by (rule result_initialize(1) [OF init])
  let ?A = "\<lambda>e. is_callback_event e \<longrightarrow>
                is_main_process c \<and> e = NewTrainingCallback (run_name c) (training_config c)"
  have "emits ?A (initialize y)"
    by (rule emits_initialize) simp_all
  moreover have "emits ?A (main_from y c)"
    by (rule emits_main_from) simp_all
  ultimately show "list_all ?A (events (main y s))"
    by (rule events_main [OF init])
  let ?B = "\<lambda>e. \<forall>cbs kw. e = NewTrainer cbs kw \<longrightarrow>
              cbs = (if is_main_process c
                     then [TrainingCallback (run_name c) (training_config c)] else [])"
  have "emits ?B (initialize y)"
    by (rule emits_initialize) simp_all
  moreover have "emits ?B (main_from y c)"
    by (rule emits_main_from) simp_all
  ultimately have "list_all ?B (events (main y s))"
    by (rule events_main [OF init])
  then show "list_all (\<lambda>cbs. cbs = (if is_main_process c
                            then [TrainingCallback (run_name c) (training_config c)] else []))
      (trainer_callbacks (events (main y s)))"
    by (rule trainer_callbacks_all)
next
  assume w: "\<not> is_main_process c"
  let ?C = "\<lambda>e. \<not> is_callback_event e \<and> \<not> is_metrics_event e \<and> \<not> is_write e"
  have "emits ?C (initialize y)"
    by (rule emits_initialize) simp_all
  moreover have "emits ?C (main_from y c)"
    using w by (intro emits_main_from) simp_all
  ultimately show "list_all ?C (events (main y s))"
    by (rule events_main [OF init])
qed

lemma demo_scene_events1:
  "trainer_callbacks (events (main (demo_sys rank1 (demo_config (YStr ''scene'') [])) demo_fs)) = [[]]"
  by code_simp

lemma demo_scene_events0:
  "trainer_callbacks (events (main (demo_sys rank0 (demo_config (YStr ''scene'') [])) demo_fs)) =
     [[TrainingCallback ''20260101-000000'' (demo_train (YStr ''scene'') [])]]"
  by code_simp

theorem observability_hook_only_on_primary_witness:
  "trainer_callbacks (events (main (demo_sys rank0 (demo_config (YStr ''scene'') [])) demo_fs)) =
     [[TrainingCallback ''20260101-000000'' (demo_train (YStr ''scene'') [])]] \<and>
   trainer_callbacks (events (main (demo_sys rank1 (demo_config (YStr ''scene'') [])) demo_fs)) =
     [[]] \<and>
   list_all (\<lambda>e. \<not> is_callback_event e \<and> \<not> is_metrics_event e \<and> \<not> is_write e)
     (events (main (demo_sys rank1 (demo_config (YStr ''scene'') [])) demo_fs))"
  using observability_hook_only_on_primary
      [of "demo_sys rank1 (demo_config (YStr ''scene'') [])" demo_fs "demo_ctx 1 (YStr ''scene'') []"]
    demo_scene_events0 demo_scene_events1
  by (simp add: demo_initialize demo_fs_def) (simp add: demo_ctx_def)

text \<open>
  C6 as stated fails: the test of the rank is not the only one. With everything but
  \<^verbatim>\<open>LOCAL_RANK\<close> the same, rank 0 creates the output directory and dumps the
  configuration, and rank 1 does neither; neither event is a callback's.
\<close>

theorem rank_also_gates_persistence:
  "MakeDirs ''./output/20260101-000000''
     \<in> set (events (main (demo_sys rank0 (demo_config (YStr ''scene'') [])) demo_fs)) \<and>
   MakeDirs ''./output/20260101-000000''
     \<notin> set (events (main (demo_sys rank1 (demo_config (YStr ''scene'') [])) demo_fs)) \<and>
   length (filter is_write
     (events (main (demo_sys rank0 (demo_config (YStr ''scene'') [])) demo_fs))) = 3 \<and>
   length (filter is_write
     (events (main (demo_sys rank1 (demo_config (YStr ''scene'') [])) demo_fs))) = 0 \<and>
   \<not> is_callback_event (MakeDirs ''./output/20260101-000000'')"
  by code_simp

subsection \<open>The driver's limits\<close>

lemma trainer_limits_YMap:
  "trainer_limits (YMap kvs) =
     Inr [(''max_steps'', case map_of kvs (YStr ''max_steps'') of None \<Rightarrow> YInt (- 1) | Some v \<Rightarrow> v),
          (''max_epochs'', case map_of kvs (YStr ''max_epochs'') of None \<Rightarrow> YInt (- 1) | Some v \<Rightarrow> v),
          (''gradient_clip_val'',
             case map_of kvs (YStr ''gradient_clip_val'') of None \<Rightarrow> YFloat (1 / 2) | Some v \<Rightarrow> v)]"
  by (simp add: trainer_limits_def bindE_def)

text \<open>
  C5. Every driver a run constructs is given \<^verbatim>\<open>max_steps\<close>, \<^verbatim>\<open>max_epochs\<close> and
  \<^verbatim>\<open>gradient_clip_val\<close> as follows: the value under the key of the training
  configuration when the key is there, passed on as it is, and otherwise -1, -1 (the
  driver's "no cap") and 0.5.
\<close>

theorem trainer_limits_default_or_configured:
  assumes init: "result (initialize y s) = Inr c" and tc: "training_config c = YMap kvs"
  shows "list_all
     (\<lambda>kw. map_of kw ''max_steps'' =
              Some (case map_of kvs (YStr ''max_steps'') of None \<Rightarrow> YInt (- 1) | Some v \<Rightarrow> v) \<and>
           map_of kw ''max_epochs'' =
              Some (case map_of kvs (YStr ''max_epochs'') of None \<Rightarrow> YInt (- 1) | Some v \<Rightarrow> v) \<and>
           map_of kw ''gradient_clip_val'' =
              Some (case map_of kvs (YStr ''gradient_clip_val'') of
                      None \<Rightarrow> YFloat (1 / 2) | Some v \<Rightarrow> v))
     (trainer_kwargs (events (main y s)))"
proof -
  let ?good = "\<lambda>kw. map_of kw ''max_steps'' =
              Some (case map_of kvs (YStr ''max_steps'') of None \<Rightarrow> YInt (- 1) | Some v \<Rightarrow> v) \<and>
           map_of kw ''max_epochs'' =
              Some (case map_of kvs (YStr ''max_epochs'') of None \<Rightarrow> YInt (- 1) | Some v \<Rightarrow> v) \<and>
           map_of kw ''gradient_clip_val'' =
              Some (case map_of kvs (YStr ''gradient_clip_val'') of
                      None \<Rightarrow> YFloat (1 / 2) | Some v \<Rightarrow> v)"
  let ?P = "\<lambda>e. \<forall>cbs kw. e = NewTrainer cbs kw \<longrightarrow> ?good kw"
  have "emits ?P (initialize y)"
    by (rule emits_initialize) simp_all
  moreover have "emits ?P (main_from y c)"
    by (rule emits_main_from) (auto simp: tc trainer_limits_YMap)
  ultimately have "list_all ?P (events (main y s))"
    by (rule events_main [OF init])
  then show ?thesis
    by (rule trainer_kwargs_all)
qed

lemma demo_trainer_kwargs:
  "trainer_kwargs (events (main (demo_sys rank1 (demo_config (YStr ''scene'') [])) demo_fs)) =
     [[(''accumulate_grad_batches'', YInt 1), (''enable_checkpointing'', YBool False),
       (''enable_progress_bar'', YBool False), (''logger'', YBool False),
       (''max_steps'', YInt (- 1)), (''max_epochs'', YInt (- 1)),
       (''gradient_clip_val'', YFloat (1 / 2))]]"
  "map (\<lambda>kw. (map_of kw ''max_steps'', map_of kw ''max_epochs'', map_of kw ''gradient_clip_val''))
     (trainer_kwargs (events (main (demo_sys rank1
        (demo_config (YStr ''scene'')
           [(YStr ''max_steps'', YInt 1000), (YStr ''gradient_clip_val'', YNull)])) demo_fs))) =
     [(Some (YInt 1000), Some (YInt (- 1)), Some YNull)]"
  by code_simp+

theorem trainer_limits_default_or_configured_witness:
  "training_config (demo_ctx 1 (YStr ''scene'') []) = demo_train (YStr ''scene'') [] \<and>
   trainer_kwargs (events (main (demo_sys rank1 (demo_config (YStr ''scene'') [])) demo_fs)) =
     [[(''accumulate_grad_batches'', YInt 1), (''enable_checkpointing'', YBool False),
       (''enable_progress_bar'', YBool False), (''logger'', YBool False),
       (''max_steps'', YInt (- 1)), (''max_epochs'', YInt (- 1)),
       (''gradient_clip_val'', YFloat (1 / 2))]] \<and>
   list_all (\<lambda>kw. map_of kw ''max_steps'' = Some (YInt (- 1)) \<and>
                   map_of kw ''max_epochs'' = Some (YInt (- 1)) \<and>
                   map_of kw ''gradient_clip_val'' = Some (YFloat (1 / 2)))
     (trainer_kwargs (events (main (demo_sys rank1 (demo_config (YStr ''scene'') [])) demo_fs)))"
  using trainer_limits_default_or_configured
      [of "demo_sys rank1 (demo_config (YStr ''scene'') [])" demo_fs "demo_ctx 1 (YStr ''scene'') []"
          "[(YStr ''dataset'', demo_dataset (YStr ''scene'')),
            (YStr ''condition_type'', YStr ''scene''),
            (YStr ''batch_size'', YInt 2), (YStr ''dataloader_workers'', YInt 0),
            (YStr ''lora_config'', YMap [(YStr ''r'', YInt 4)]),
            (YStr ''optimizer'', YMap [(YStr ''type'', YStr ''AdamW'')]),
            (YStr ''accumulate_grad_batches'', YInt 1)]"]
    demo_trainer_kwargs(1)
  by (simp add: demo_initialize demo_fs_def) (simp add: demo_ctx_def demo_train_def)

subsection \<open>The order of the stages\<close>

lemma stages_append: "stages (a @ b) = stages a @ stages b"
  by (induction a) (simp_all add: stages_def split: option.split)

lemma stages_of_one_stage:
  "list_all (\<lambda>e. stage_of e = None \<or> stage_of e = Some K) t \<Longrightarrow>
   list_all (\<lambda>k. k = K) (stages t)"
  by (induction t) (auto simp: stages_def)

lemma sorted_constant: "list_all (\<lambda>k. k = K) ks \<Longrightarrow> sorted (map f ks)"
  by (induction ks) (auto simp: list_all_iff)

lemma ordered_single:
  assumes "emits (\<lambda>e. stage_of e = None \<or> stage_of e = Some K) m" and "code_order K = k"
  shows "ordered_between k k m"
  unfolding ordered_between_def
proof (intro allI conjI)
  fix s
  from assms(1) have one: "list_all (\<lambda>k. k = K) (stages (events (m s)))"
    by (simp add: emits_def stages_of_one_stage)
  then show "sorted (map code_order (stages (events (m s))))"
    by (rule sorted_constant)
  from one assms(2) show "list_all (\<lambda>j. k \<le> j \<and> j \<le> k) (map code_order (stages (events (m s))))"
    by (auto simp: list_all_iff)
qed

lemma ordered_silent:
  assumes "emits (\<lambda>e. stage_of e = None) m"
  shows "ordered_between k k m"
proof -
  have "stages (events (m s)) = []" for s
    using assms by (simp add: emits_def stages_def map_filter_def filter_empty_conv list_all_iff)
  then show ?thesis
    by (simp add: ordered_between_def)
qed

lemma ordered_bindA:
  assumes m: "ordered_between a b m" and f: "\<And>x. ordered_between b' d (f x)"
    and le: "a \<le> b" "b \<le> b'" "b' \<le> d"
  shows "ordered_between a d (bindA m f)"
  unfolding ordered_between_def
proof (intro allI)
  fix s
  let ?t = "map code_order (stages (events (m s)))"
  from m have sm: "sorted ?t" and bm: "list_all (\<lambda>k. a \<le> k \<and> k \<le> b) ?t"
    by (simp_all add: ordered_between_def)
  show "sorted (map code_order (stages (events (bindA m f s)))) \<and>
        list_all (\<lambda>k. a \<le> k \<and> k \<le> d) (map code_order (stages (events (bindA m f s))))"
  proof (cases "result (m s)")
    case (Inl e)
    then show ?thesis
      using sm bm le by (auto simp: events_bindA list_all_iff)
  next
    case (Inr x)
    let ?u = "map code_order (stages (events (f x (final (m s)))))"
    from f [of x] have su: "sorted ?u" and bu: "list_all (\<lambda>k. b' \<le> k \<and> k \<le> d) ?u"
      by (simp_all add: ordered_between_def)
    have "sorted (?t @ ?u)"
      using sm su bm bu le by (fastforce simp: sorted_append list_all_iff)
    moreover have "list_all (\<lambda>k. a \<le> k \<and> k \<le> d) (?t @ ?u)"
      using bm bu le by (fastforce simp: list_all_iff)
    ultimately show ?thesis
      using Inr by (simp add: events_bindA stages_append)
  qed
qed

lemma ordered_weaken:
  "ordered_between a b m \<Longrightarrow> a' \<le> a \<Longrightarrow> b \<le> b' \<Longrightarrow> ordered_between a' b' m"
  by (fastforce simp: ordered_between_def list_all_iff)

lemma ordered_initialize: "ordered_between 0 1 (initialize y)"
proof -
  have r: "ordered_between 0 0 (get_rank y)"
    by (rule ordered_single [where K = PickRank], rule emits_get_rank) simp_all
  have d: "ordered_between 0 0 (call y (CudaSetDevice r))" for r
    by (rule ordered_single [where K = PickRank], rule emits_call) simp_all
  have "ordered_between 1 1 (get_config y)"
    by (rule ordered_single [where K = LoadConfig], rule emits_get_config) simp_all
  then have g: "ordered_between 0 1 (get_config y)"
    by (rule ordered_weaken) simp_all
  have l: "ordered_between 1 1 (lift v)" for v :: "error + yaml"
    by (rule ordered_silent) (rule emits_lift)
  have t: "ordered_between 1 1 (emit (Strftime f))" for f
    by (rule ordered_silent) (simp add: emits_emit)
  have e: "ordered_between 1 1 (ret v)" for v :: ctx
    by (rule ordered_silent) (rule emits_ret)
  show ?thesis
    unfolding initialize_def
    by (intro ordered_bindA [OF r, where b' = 0] ordered_bindA [OF d, where b' = 0]
          ordered_bindA [OF g, where b' = 1] ordered_bindA [OF l, where b' = 1]
          ordered_bindA [OF t, where b' = 1] e) simp_all
qed

lemma ordered_main_from: "ordered_between 2 8 (main_from y c)"
proof -
  have s2: "ordered_between 2 2 (initialize_wandb y c)"
    by (rule ordered_single [where K = InitMetrics], rule emits_initialize_wandb) simp_all
  have s2': "ordered_between 3 3 (print_rank c)"
    by (rule ordered_silent, rule emits_print_rank) simp
  have s3: "ordered_between 3 3 (select_dataset y c)"
    by (rule ordered_single [where K = BuildDataset], rule emits_select_dataset) simp_all
  have s4: "ordered_between 4 4 (make_loader y c ds)" for ds
    by (rule ordered_single [where K = BuildLoader], rule emits_make_loader) simp_all
  have s5: "ordered_between 5 5 (make_model y c)"
    by (rule ordered_single [where K = BuildModel], rule emits_make_model) simp_all
  have s6: "ordered_between 6 6 (make_callbacks y c)"
    by (rule ordered_single [where K = BuildDriver], rule emits_make_callbacks) simp_all
  have s6': "ordered_between 6 6 (make_trainer y c cbs)" for cbs
    by (rule ordered_single [where K = BuildDriver], rule emits_make_trainer) simp_all
  have s7: "ordered_between 7 7 (save_config y c)"
    by (rule ordered_single [where K = PersistConfig], rule emits_save_config) simp_all
  have s8: "ordered_between 8 8 (fit y tr m l)" for tr m l
    by (rule ordered_single [where K = CallFit], rule emits_fit) simp_all
  show ?thesis
    unfolding main_from_def
    by (intro ordered_bindA [OF s2, where b' = 3] ordered_bindA [OF s2', where b' = 3]
          ordered_bindA [OF s3, where b' = 4] ordered_bindA [OF s4, where b' = 5]
          ordered_bindA [OF s5, where b' = 6] ordered_bindA [OF s6, where b' = 6]
          ordered_bindA [OF s6', where b' = 7] ordered_bindA [OF s7, where b' = 8] s8) simp_all
qed

lemma ordered_main: "ordered_between 0 8 (main y)"
  unfolding main_def
  by (rule ordered_bindA [OF ordered_initialize, where b' = 2]) (simp_all add: ordered_main_from)

lemma fits_of_main: "length (filter is_fit (events (main y s))) \<le> 1"
proof (cases "result (initialize y s)")
  case (Inl e)
  have "emits (\<lambda>e. \<not> is_fit e) (initialize y)"
    by (rule emits_initialize) simp_all
  then have "filter is_fit (events (initialize y s)) = []"
    by (simp add: emits_def filter_empty_conv list_all_iff)
  with Inl show ?thesis
    by (simp add: main_when_initialize_fails)
next
  case (Inr c)
  from main_shape [OF Inr] obtain pre where pre: "list_all (\<lambda>e. \<not> is_write e \<and> \<not> is_fit e) pre"
    and alt: "(\<exists>err. main y s = (Inl err, pre, s)) \<or>
              (\<exists>tr m l. main y s = prepend pre (persist_then_fit y c tr m l s))"
    by blast
  from alt show ?thesis
    using no_fit_before [OF pre] fits_of_tail [of y c _ _ _ s] by auto
qed

lemma fit_is_last:
  assumes "result (main y s) = Inr ()"
  shows "\<exists>pre tr m l. events (main y s) = pre @ [TrainerFit tr m l] \<and> list_all (\<lambda>e. \<not> is_fit e) pre"
proof (cases "result (initialize y s)")
  case (Inl e)
  with assms show ?thesis
    by (simp add: main_when_initialize_fails)
next
  case (Inr c)
  from main_shape [OF Inr] obtain pre where pre: "list_all (\<lambda>e. \<not> is_write e \<and> \<not> is_fit e) pre"
    and alt: "(\<exists>err. main y s = (Inl err, pre, s)) \<or>
              (\<exists>tr m l. main y s = prepend pre (persist_then_fit y c tr m l s))"
    by blast
  from alt assms obtain tr m l where ms: "main y s = prepend pre (persist_then_fit y c tr m l s)"
    by auto
  from assms obtain u where u: "result (save_config y c s) = Inr u"
    by (auto simp: ms persist_then_fit_simps split: sum.splits)
  have ev: "events (main y s) = (pre @ events (save_config y c s)) @ [TrainerFit tr m l]"
    using u by (simp add: ms persist_then_fit_simps)
  have "list_all (\<lambda>e. \<not> is_fit e) (pre @ events (save_config y c s))"
    using pre save_config_events_prefix [of y c s] by (auto simp: list_all_iff)
  with ev show ?thesis by blast
qed

text \<open>
  C8, as the source has it. In every run the stages come in this order: pick the rank
  (and bind the device), load the configuration, initialise the metrics backend (if at
  all), build the dataset, the loader, the model wrapper, the driver (with its
  callbacks), persist the copy of the configuration, call the driver's fit. No event of
  a stage comes before an event of a stage earlier in this list; fit is called at most
  once, and in a run that returns it is the last event.
\<close>

theorem stages_follow_source_order:
  "sorted (map code_order (stages (events (main y s)))) \<and>
   length (filter is_fit (events (main y s))) \<le> 1 \<and>
   (result (main y s) = Inr () \<longrightarrow>
      (\<exists>pre tr m l. events (main y s) = pre @ [TrainerFit tr m l] \<and>
         list_all (\<lambda>e. \<not> is_fit e) pre))"
  using ordered_main [of y] fits_of_main [of y s] fit_is_last [of y s]
  by (simp add: ordered_between_def)

lemma demo_stages:
  "stages (events (main (demo_sys rank0 (demo_config (YStr ''scene'') [])) demo_fs)) =
     [PickRank, PickRank, PickRank, LoadConfig, LoadConfig, LoadConfig, BuildDataset,
      BuildDataset, BuildLoader, BuildModel, BuildModel, BuildDriver, BuildDriver,
      PersistConfig, PersistConfig, PersistConfig, CallFit]"
  by code_simp

theorem stages_follow_source_order_witness:
  "result (main (demo_sys rank0 (demo_config (YStr ''scene'') [])) demo_fs) = Inr () \<and>
   stages (events (main (demo_sys rank0 (demo_config (YStr ''scene'') [])) demo_fs)) =
     [PickRank, PickRank, PickRank, LoadConfig, LoadConfig, LoadConfig, BuildDataset,
      BuildDataset, BuildLoader, BuildModel, BuildModel, BuildDriver, BuildDriver,
      PersistConfig, PersistConfig, PersistConfig, CallFit] \<and>
   sorted (map code_order
     (stages (events (main (demo_sys rank0 (demo_config (YStr ''scene'') [])) demo_fs)))) \<and>
   length (filter is_fit
     (events (main (demo_sys rank0 (demo_config (YStr ''scene'') [])) demo_fs))) \<le> 1"
  using stages_follow_source_order [of "demo_sys rank0 (demo_config (YStr ''scene'') [])" demo_fs]
    demo_scene_returns(1) demo_stages
  by simp

text \<open>
  C8 as stated fails: in the order of the spec the configuration is loaded before the
  rank is picked, and the source reads \<^verbatim>\<open>LOCAL_RANK\<close> and binds the device first.
\<close>

theorem rank_is_picked_before_config_is_loaded:
  "\<not> sorted (map spec_order
       (stages (events (main (demo_sys rank0 (demo_config (YStr ''scene'') [])) demo_fs)))) \<and>
   take 4 (events (main (demo_sys rank0 (demo_config (YStr ''scene'') [])) demo_fs)) =
     [GetEnv ''LOCAL_RANK'', GetEnv ''LOCAL_RANK'', CudaSetDevice 0, GetEnv ''XFL_CONFIG'']"
  by code_simp

subsection \<open>Where the scene dataset comes from\<close>

lemma result_LocalSubjectsDataset_init:
  assumes "result (LocalSubjectsDataset_init y p d tr s) = Inr ds"
  shows "image_dir ds = d" and "transform_of ds = tr"
    and "features ds = [(''imageA'', ''PIL.Image''), (''prompt'', ''str''),
                        (''imageB'', ''PIL.Image'')]"
    and "\<exists>content. files s p = Some content \<and> csv_parse y content = Inr (data ds)"
  using assms
  by (auto simp: LocalSubjectsDataset_init_def bindA_simps
      split: sum.splits option.splits if_splits)

lemma result_load_dataset: "result (load_dataset y n kw s) = Inr raw \<Longrightarrow> raw = Hub n kw"
  by (auto simp: load_dataset_def bindA_simps split: sum.splits option.splits)

lemma emits_select_dataset_paths:
  "emits (\<lambda>e. (\<forall>p. e = ReadCsv p \<longrightarrow> p = ''csv_path'') \<and>
              (\<forall>cls ds kw. e = NewAdapter cls (Local ds) kw \<longrightarrow> image_dir ds = ''images_path''))
     (select_dataset y c)"
  unfolding select_dataset_def
  apply (rule emits_bindA [OF emits_lift])
  apply (rule emits_if)
   apply (rule emits_bindA_result [OF emits_LocalSubjectsDataset_init])
    apply simp
   apply (drule result_LocalSubjectsDataset_init(1))
   apply (intro emits_bindA emits_lift emits_emit emits_new_adapter; simp)
  apply (rule emits_bindA [OF emits_lift])
  apply (rule emits_if)
   apply (rule emits_bindA [OF emits_lift])
   apply (rule emits_bindA_result [OF emits_load_dataset])
    apply simp
   apply (drule result_load_dataset)
   apply (intro emits_bindA emits_lift emits_new_adapter; simp)
  apply (rule emits_bindA [OF emits_lift])
  apply (rule emits_if)
   apply (rule emits_bindA_result [OF emits_load_dataset])
    apply simp
   apply (drule result_load_dataset)
   apply (intro emits_bindA emits_lift emits_new_adapter; simp)
  apply (rule emits_bindA [OF emits_lift])
  apply (rule emits_if; rule emits_raise)
  done

lemma emits_main_from_select:
  assumes "\<And>vs. P (Print vs)" "is_main_process c \<Longrightarrow> P ImportWandb"
    "\<And>kw. is_main_process c \<Longrightarrow> P (WandbInit kw)" "emits P (select_dataset y c)"
    "\<And>d kw. P (NewDataLoader d kw)" "\<And>v. P (TorchGetAttr v)" "\<And>kw. P (NewOminiModel kw)"
    "\<And>n tc. P (NewTrainingCallback n tc)" "\<And>cbs kw. P (NewTrainer cbs kw)"
    "\<And>p. P (MakeDirs p)" "\<And>p. P (OpenWrite p)" "\<And>p v. P (YamlDump p v)"
    "\<And>tr m l. P (TrainerFit tr m l)"
  shows "emits P (main_from y c)"
  unfolding main_from_def
  apply (rule emits_bindA [OF emits_initialize_wandb], (rule assms, assumption)+)
  apply (rule emits_bindA [OF emits_print_rank], rule assms)
  apply (rule emits_bindA, rule assms)
  apply (rule emits_bindA [OF emits_make_loader], (rule assms)+)
  apply (rule emits_bindA [OF emits_make_model], (rule assms)+)
  apply (rule emits_bindA [OF emits_make_callbacks], rule assms)
  apply (rule emits_bindA [OF emits_make_trainer], rule assms)
  apply (rule emits_bindA [OF emits_save_config], (rule assms)+)
  apply (rule emits_fit, rule assms)
  done

lemma csv_reads_all:
  "list_all (\<lambda>e. \<forall>p. e = ReadCsv p \<longrightarrow> Q p) t \<Longrightarrow> list_all Q (csv_reads t)"
  by (induction t rule: csv_reads.induct) simp_all

lemma adapted_locals_all:
  "list_all (\<lambda>e. \<forall>cls ds kw. e = NewAdapter cls (Local ds) kw \<longrightarrow> Q ds) t \<Longrightarrow>
   list_all Q (adapted_locals t)"
  by (induction t rule: adapted_locals.induct) simp_all

lemma main_paths:
  "list_all (\<lambda>e. (\<forall>p. e = ReadCsv p \<longrightarrow> p = ''csv_path'') \<and>
              (\<forall>cls ds kw. e = NewAdapter cls (Local ds) kw \<longrightarrow> image_dir ds = ''images_path''))
     (events (main y s))"
proof (cases "result (initialize y s)")
  let ?P = "\<lambda>e. (\<forall>p. e = ReadCsv p \<longrightarrow> p = ''csv_path'') \<and>
              (\<forall>cls ds kw. e = NewAdapter cls (Local ds) kw \<longrightarrow> image_dir ds = ''images_path'')"
  have i: "emits ?P (initialize y)"
    by (rule emits_initialize) simp_all
  {
    case (Inl e)
    with i show ?thesis
      by (simp add: main_when_initialize_fails emits_def)
  next
    case (Inr c)
    have "emits ?P (main_from y c)"
      by (rule emits_main_from_select, simp, simp, simp, rule emits_select_dataset_paths)
        simp_all
    with i show ?thesis
      by (rule events_main [OF Inr])
  }
qed

lemma select_dataset_scene:
  assumes t: "dataset_opt (training_config c) ''type'' = Inr (YStr ''scene'')"
  shows "csv_reads (events (select_dataset y c s)) = [''csv_path'']"
    and "result (select_dataset y c s) = Inr d \<Longrightarrow>
      \<exists>df content kw.
        d = Adapter ''SceneDataset''
              (Local \<lparr>data = df, image_dir = ''images_path'', transform_of = Some transform,
                      features = [(''imageA'', ''PIL.Image''), (''prompt'', ''str''),
                                  (''imageB'', ''PIL.Image'')]\<rparr>) kw \<and>
        files s ''csv_path'' = Some content \<and> csv_parse y content = Inr df"
proof -
  let ?init = "LocalSubjectsDataset_init y ''csv_path'' ''images_path'' (Some transform)"
  have ev: "events (?init s) = [ReadCsv ''csv_path'']" and fi: "final (?init s) = s"
    by (simp_all add: LocalSubjectsDataset_init_def bindA_simps split: sum.split)
  show "csv_reads (events (select_dataset y c s)) = [''csv_path'']"
    using t ev fi
    by (simp add: select_dataset_def new_adapter_def bindA_simps split: sum.split)
  assume r: "result (select_dataset y c s) = Inr d"
  then obtain ds where ds: "result (?init s) = Inr ds"
    using t by (auto simp: select_dataset_def bindA_simps split: sum.splits)
  from r ds obtain kw where d: "d = Adapter ''SceneDataset'' (Local ds) kw"
    using t fi
    by (auto simp: select_dataset_def new_adapter_def bindA_simps split: sum.splits option.splits)
  from result_LocalSubjectsDataset_init [OF ds] obtain content
    where "files s ''csv_path'' = Some content" "csv_parse y content = Inr (data ds)"
      and "image_dir ds = ''images_path''" "transform_of ds = Some transform"
      and "features ds = [(''imageA'', ''PIL.Image''), (''prompt'', ''str''),
                          (''imageB'', ''PIL.Image'')]"
    by blast
  with d show "\<exists>df content kw.
        d = Adapter ''SceneDataset''
              (Local \<lparr>data = df, image_dir = ''images_path'', transform_of = Some transform,
                      features = [(''imageA'', ''PIL.Image''), (''prompt'', ''str''),
                                  (''imageB'', ''PIL.Image'')]\<rparr>) kw \<and>
        files s ''csv_path'' = Some content \<and> csv_parse y content = Inr df"
    by (intro exI [of _ "data ds"] exI [of _ content] exI [of _ kw]) simp
qed

lemma getitem_opens:
  assumes "result (LocalSubjectsDataset_getitem y self idx s) = Inr smp"
  shows "\<exists>a b. bindE (cell (data self) idx ''imageA'') first_if_series = Inr a \<and>
           bindE (cell (data self) idx ''imageB'') first_if_series = Inr b \<and>
           events (LocalSubjectsDataset_getitem y self idx s) =
             [OpenImage (path_join (image_dir self) (py_str y a)),
              OpenImage (path_join (image_dir self) (py_str y b))]"
  using assms
  by (auto simp: LocalSubjectsDataset_getitem_def bindA_simps simp del: image_open_simps(1)
      split: sum.splits)

text \<open>
  C1, as the source has it. Whatever the configuration says, every CSV file a run reads
  is the one at the literal path \<^verbatim>\<open>csv_path\<close>, and every local dataset a run wraps in an
  adapter has the literal image directory \<^verbatim>\<open>images_path\<close>. With the tag "scene",
  dataset selection reads exactly that CSV, and the dataset it returns is the scene
  adapter around the table parsed from that file, with that image directory and the
  module's transform. An item of a local dataset opens its two images at its image
  directory joined with the names in the columns imageA and imageB.
\<close>

theorem scene_dataset_from_literal_paths:
  "list_all (\<lambda>p. p = ''csv_path'') (csv_reads (events (main y s))) \<and>
   list_all (\<lambda>ds. image_dir ds = ''images_path'') (adapted_locals (events (main y s))) \<and>
   (dataset_opt (training_config c) ''type'' = Inr (YStr ''scene'') \<longrightarrow>
      csv_reads (events (select_dataset y c s)) = [''csv_path''] \<and>
      (\<forall>d. result (select_dataset y c s) = Inr d \<longrightarrow>
         (\<exists>df content kw.
            d = Adapter ''SceneDataset''
                  (Local \<lparr>data = df, image_dir = ''images_path'', transform_of = Some transform,
                          features = [(''imageA'', ''PIL.Image''), (''prompt'', ''str''),
                                      (''imageB'', ''PIL.Image'')]\<rparr>) kw \<and>
            files s ''csv_path'' = Some content \<and> csv_parse y content = Inr df))) \<and>
   (\<forall>smp. result (LocalSubjectsDataset_getitem y self idx s) = Inr smp \<longrightarrow>
      (\<exists>a b. bindE (cell (data self) idx ''imageA'') first_if_series = Inr a \<and>
         bindE (cell (data self) idx ''imageB'') first_if_series = Inr b \<and>
         events (LocalSubjectsDataset_getitem y self idx s) =
           [OpenImage (path_join (image_dir self) (py_str y a)),
            OpenImage (path_join (image_dir self) (py_str y b))]))"
proof (intro conjI impI allI)
  show "list_all (\<lambda>p. p = ''csv_path'') (csv_reads (events (main y s)))"
    by (rule csv_reads_all) (use main_paths [of y s] in \<open>simp add: list_all_iff\<close>)
  show "list_all (\<lambda>ds. image_dir ds = ''images_path'') (adapted_locals (events (main y s)))"
    by (rule adapted_locals_all) (use main_paths [of y s] in \<open>simp add: list_all_iff\<close>)
next
  assume t: "dataset_opt (training_config c) ''type'' = Inr (YStr ''scene'')"
  show "csv_reads (events (select_dataset y c s)) = [''csv_path'']"
    by (rule select_dataset_scene(1) [OF t])
  fix d
  assume "result (select_dataset y c s) = Inr d"
  then show "\<exists>df content kw.
            d = Adapter ''SceneDataset''
                  (Local \<lparr>data = df, image_dir = ''images_path'', transform_of = Some transform,
                          features = [(''imageA'', ''PIL.Image''), (''prompt'', ''str''),
                                      (''imageB'', ''PIL.Image'')]\<rparr>) kw \<and>
            files s ''csv_path'' = Some content \<and> csv_parse y content = Inr df"
    by (rule select_dataset_scene(2) [OF t])
next
  fix smp
  assume "result (LocalSubjectsDataset_getitem y self idx s) = Inr smp"
  then show "\<exists>a b. bindE (cell (data self) idx ''imageA'') first_if_series = Inr a \<and>
         bindE (cell (data self) idx ''imageB'') first_if_series = Inr b \<and>
         events (LocalSubjectsDataset_getitem y self idx s) =
           [OpenImage (path_join (image_dir self) (py_str y a)),
            OpenImage (path_join (image_dir self) (py_str y b))]"
    by (rule getitem_opens)
qed

lemma demo_scene_paths:
  "csv_reads (events (main (demo_sys rank1 (demo_config (YStr ''scene'') [])) demo_fs)) =
     [''csv_path'']"
  "map image_dir
     (adapted_locals (events (main (demo_sys rank1 (demo_config (YStr ''scene'') [])) demo_fs))) =
     [''images_path'']"
  by code_simp+

theorem scene_dataset_from_literal_paths_witness:
  "dataset_opt (training_config (demo_ctx 1 (YStr ''scene'') [])) ''type'' = Inr (YStr ''scene'') \<and>
   csv_reads (events (select_dataset (demo_sys rank1 (demo_config (YStr ''scene'') []))
      (demo_ctx 1 (YStr ''scene'') []) demo_fs)) = [''csv_path''] \<and>
   csv_reads (events (main (demo_sys rank1 (demo_config (YStr ''scene'') [])) demo_fs)) =
     [''csv_path''] \<and>
   list_all (\<lambda>p. p = ''csv_path'')
     (csv_reads (events (main (demo_sys rank1 (demo_config (YStr ''scene'') [])) demo_fs)))"
  using scene_dataset_from_literal_paths
      [of "demo_sys rank1 (demo_config (YStr ''scene'') [])" demo_fs
          "demo_ctx 1 (YStr ''scene'') []"]
    demo_scene_paths(1)
  by (simp add: demo_ctx_def demo_train_def demo_dataset_def dataset_opt_def bindE_def)

text \<open>
  C1 as stated fails: the configuration names \<^verbatim>\<open>data/train.csv\<close> and \<^verbatim>\<open>data/images\<close>,
  and the run reads \<^verbatim>\<open>csv_path\<close> and resolves the image names in \<^verbatim>\<open>images_path\<close>.
\<close>

theorem configured_csv_and_image_dir_are_ignored:
  "dataset_opt (demo_train (YStr ''scene'') []) ''type'' = Inr (YStr ''scene'') \<and>
   dataset_opt (demo_train (YStr ''scene'') []) ''csv_file'' = Inr (YStr ''data/train.csv'') \<and>
   dataset_opt (demo_train (YStr ''scene'') []) ''image_dir'' = Inr (YStr ''data/images'') \<and>
   csv_reads (events (main (demo_sys rank1 (demo_config (YStr ''scene'') [])) demo_fs)) \<noteq>
     [''data/train.csv''] \<and>
   csv_reads (events (main (demo_sys rank1 (demo_config (YStr ''scene'') [])) demo_fs)) =
     [''csv_path''] \<and>
   map image_dir
     (adapted_locals (events (main (demo_sys rank1 (demo_config (YStr ''scene'') [])) demo_fs))) =
     [''images_path''] \<and>
   map (\<lambda>ds. events (LocalSubjectsDataset_getitem
                        (demo_sys rank1 (demo_config (YStr ''scene'') [])) ds 0 demo_fs))
     (adapted_locals (events (main (demo_sys rank1 (demo_config (YStr ''scene'') [])) demo_fs))) =
     [[OpenImage ''images_path/a0.png'', OpenImage ''images_path/b0.png'']]"
  by code_simp

subsection \<open>The loader a run hands to the driver\<close>

lemma no_fit_in:
  assumes "emits (\<lambda>e. \<not> is_fit e) m"
  shows "TrainerFit tr mo l \<notin> set (events (m s))"
proof
  assume a: "TrainerFit tr mo l \<in> set (events (m s))"
  from assms have "\<forall>e\<in>set (events (m s)). \<not> is_fit e"
    by (simp add: emits_def list_all_iff)
  with a have "\<not> is_fit (TrainerFit tr mo l)" by blast
  then show False by simp
qed

lemma result_make_loader:
  assumes "result (make_loader y c d s) = Inr l"
  shows "\<exists>bsz nw. subscript (training_config c) ''batch_size'' = Inr bsz \<and>
           subscript (training_config c) ''dataloader_workers'' = Inr nw \<and>
           l = DataLoader d [(''batch_size'', bsz), (''shuffle'', YBool True), (''num_workers'', nw)]"
  using assms
  by (auto simp: make_loader_def bindA_simps split: sum.splits option.splits)

lemma main_from_fit_loader:
  assumes fit: "TrainerFit tr mo l \<in> set (events (main_from y c s))"
  shows "\<exists>d. result (select_dataset y c s) = Inr d \<and> result (make_loader y c d s) = Inr l"
proof -
  have k1: "final (initialize_wandb y c s') = s'" for s'
    using keeps_initialize_wandb [of y c] by (simp add: keeps_fs_def)
  have k2: "final (print_rank c s') = s'" for s'
    using keeps_print_rank [of c] by (simp add: keeps_fs_def)
  have k3: "final (select_dataset y c s') = s'" for s'
    using keeps_select_dataset [of y c] by (simp add: keeps_fs_def)
  have k4: "final (make_loader y c d s') = s'" for d s'
    using keeps_make_loader [of y c d] by (simp add: keeps_fs_def)
  have k5: "final (make_model y c s') = s'" for s'
    using keeps_make_model [of y c] by (simp add: keeps_fs_def)
  have k6: "final (make_callbacks y c s') = s'" for s'
    using keeps_make_callbacks [of y c] by (simp add: keeps_fs_def)
  have k7: "final (make_trainer y c cbs s') = s'" for cbs s'
    using keeps_make_trainer [of y c] by (simp add: keeps_fs_def)
  have n1: "TrainerFit tr mo l \<notin> set (events (initialize_wandb y c s'))" for s'
    by (rule no_fit_in, rule emits_initialize_wandb) simp_all
  have n2: "TrainerFit tr mo l \<notin> set (events (print_rank c s'))" for s'
    by (rule no_fit_in, rule emits_print_rank) simp_all
  have n3: "TrainerFit tr mo l \<notin> set (events (select_dataset y c s'))" for s'
    by (rule no_fit_in, rule emits_select_dataset) simp_all
  have n4: "TrainerFit tr mo l \<notin> set (events (make_loader y c d s'))" for d s'
    by (rule no_fit_in, rule emits_make_loader) simp_all
  have n5: "TrainerFit tr mo l \<notin> set (events (make_model y c s'))" for s'
    by (rule no_fit_in, rule emits_make_model) simp_all
  have n6: "TrainerFit tr mo l \<notin> set (events (make_callbacks y c s'))" for s'
    by (rule no_fit_in, rule emits_make_callbacks) simp_all
  have n7: "TrainerFit tr mo l \<notin> set (events (make_trainer y c cbs s'))" for cbs s'
    by (rule no_fit_in, rule emits_make_trainer) simp_all
  have n8: "TrainerFit tr mo l \<notin> set (events (save_config y c s'))" for s'
    by (rule no_fit_in, rule emits_save_config) simp_all
  obtain d where d: "result (select_dataset y c s) = Inr d"
    using fit n1 n2 n3
    by (cases "result (select_dataset y c s)")
      (auto simp: main_from_def events_bindA k1 k2 split: sum.splits)
  obtain l' where l': "result (make_loader y c d s) = Inr l'"
    using fit d n1 n2 n3 n4
    by (cases "result (make_loader y c d s)")
      (auto simp: main_from_def events_bindA k1 k2 k3 split: sum.splits)
  have "l = l'"
    using fit d l' n1 n2 n3 n4 n5 n6 n7 n8
    by (auto simp: main_from_def events_bindA k1 k2 k3 k4 k5 k6 k7 fit_def split: sum.splits)
  with d l' show ?thesis by blast
qed

lemma select_dataset_scene_adapter:
  assumes t: "dataset_opt (training_config c) ''type'' = Inr (YStr ''scene'')"
    and r: "result (select_dataset y c s) = Inr d"
  shows "\<exists>base kw. d = Adapter ''SceneDataset'' (Local base) kw \<and>
           padded_kwargs (training_config c) = Inr kw \<and>
           result (LocalSubjectsDataset_init y ''csv_path'' ''images_path'' (Some transform) s)
             = Inr base"
proof -
  let ?init = "LocalSubjectsDataset_init y ''csv_path'' ''images_path'' (Some transform)"
  have fi: "final (?init s) = s"
    using keeps_LocalSubjectsDataset_init [of y] by (simp add: keeps_fs_def)
  from r obtain base where base: "result (?init s) = Inr base"
    using t by (auto simp: select_dataset_def bindA_simps split: sum.splits)
  from r base show ?thesis
    using t fi
    by (auto simp: select_dataset_def new_adapter_def bindA_simps split: sum.splits option.splits)
qed

lemma scene_local_of_init:
  assumes "result (LocalSubjectsDataset_init y ''csv_path'' ''images_path'' (Some transform) s)
             = Inr base"
    and "files s ''csv_path'' = Some content" and "csv_parse y content = Inr df"
  shows "base = scene_local df"
  using result_LocalSubjectsDataset_init [OF assms(1)] assms(2,3)
  by (cases base) (auto simp: scene_local_def)

subsection \<open>Batches of the scene dataset\<close>

lemma chunks_Nil [simp]: "chunks n [] = []"
  by (simp add: chunks.simps)

lemma chunks_Cons: "0 < n \<Longrightarrow> chunks n (x # xs) = take n (x # xs) # chunks n (drop n (x # xs))"
  by (subst chunks.simps) simp

lemma length_chunks: "0 < n \<Longrightarrow> length (chunks n xs) = (length xs + n - 1) div n"
proof (induction n xs rule: chunks.induct)
  case (1 n xs)
  show ?case
  proof (cases "xs = []")
    case True
    with "1.prems" show ?thesis by simp
  next
    case False
    with "1.prems" have step: "length (chunks n xs) = Suc (length (chunks n (drop n xs)))"
      by (subst chunks.simps) simp
    from False "1.prems" have ih: "length (chunks n (drop n xs)) = (length xs - n + n - 1) div n"
      using "1.IH" by simp
    show ?thesis
    proof (cases "n \<le> length xs")
      case True
      then have "(length xs + n - 1) div n = Suc ((length xs - 1) div n)"
        using "1.prems" False
        by (metis Suc_diff_1 add.commute add_diff_assoc2 div_add_self2 length_greater_0_conv
            less_numeral_extra(3) plus_1_eq_Suc One_nat_def Suc_leI)
      with True step ih show ?thesis by simp
    next
      case short: False
      then have "drop n xs = []" by simp
      with step have one: "length (chunks n xs) = 1" by simp
      from False have "0 < length xs" by simp
      with short have "n \<le> length xs + n - 1" "length xs + n - 1 < 2 * n"
        by arith+
      then have "(length xs + n - 1) div n = 1"
        by (simp add: div_nat_eqI)
      with one show ?thesis by simp
    qed
  qed
qed

lemma chunks_two_of_four: "length xs = 4 \<Longrightarrow> chunks 2 xs = [take 2 xs, drop 2 xs]"
proof -
  assume "length xs = 4"
  then obtain a b c d where xs: "xs = [a, b, c, d]"
    by (auto simp: length_Suc_conv eval_nat_numeral)
  show ?thesis
    unfolding xs by (simp add: chunks_Cons eval_nat_numeral)
qed

lemma decoded_opens:
  "decoded y s p = Some im \<Longrightarrow> result (image_open y p s) = Inr im"
  by (auto simp: decoded_def split: if_splits option.splits sum.splits)

text \<open>On a row of the scene format, the source's read is the raw pair of the spec.\<close>

lemma getitem_row_sample:
  assumes cols: "columns (data base) = [''imageA'', ''prompt'', ''imageB'']"
    and tr: "transform_of base = Some transform"
    and i: "i < length (rows (data base))"
    and row: "row_sample y s (image_dir base) (rows (data base) ! i) = Some x"
  shows "result (LocalSubjectsDataset_getitem y base (int i) s) = Inr x"
    and "final (LocalSubjectsDataset_getitem y base (int i) s) = s"
proof -
  from row obtain a p b ia ib where r: "rows (data base) ! i = [YStr a, YStr p, YStr b]"
    and da: "decoded y s (path_join (image_dir base) a) = Some ia"
    and db: "decoded y s (path_join (image_dir base) b) = Some ib"
    and x: "x = \<lparr>imageA = ia\<lparr>img_mode := ''RGB'', img_width := 600, img_height := 600\<rparr>,
                 prompt = Scalar (YStr p),
                 imageB = ib\<lparr>img_mode := ''RGB'', img_width := 600, img_height := 600\<rparr>\<rparr>"
    by (auto elim!: row_sample.elims split: option.splits)
  have il: "iloc (data base) (int i) = Inr [YStr a, YStr p, YStr b]"
    using i r by (simp add: iloc_def Let_def)
  have ca: "bindE (cell (data base) (int i) ''imageA'') first_if_series = Inr (YStr a)"
    and cp: "cell (data base) (int i) ''prompt'' = Inr (Scalar (YStr p))"
    and cb: "bindE (cell (data base) (int i) ''imageB'') first_if_series = Inr (YStr b)"
    by (simp_all add: cell_def il bindE_def row_get_def cols first_if_series_def)
  note oa = decoded_opens [OF da] and ob = decoded_opens [OF db]
  show "result (LocalSubjectsDataset_getitem y base (int i) s) = Inr x"
    using oa ob
    by (simp add: LocalSubjectsDataset_getitem_def bindA_simps ca cp cb py_str_def tr x
        transform_def convert_def del: image_open_simps(1))
  show "final (LocalSubjectsDataset_getitem y base (int i) s) = s"
    by (simp add: LocalSubjectsDataset_getitem_def bindA_simps del: image_open_simps(1)
        split: sum.split)
qed

lemma fetch_records_rows:
  assumes cols: "columns (data base) = [''imageA'', ''prompt'', ''imageB'']"
    and tr: "transform_of base = Some transform"
  shows "list_all (\<lambda>i. i < length (rows (data base)) \<and>
                     row_sample y s (image_dir base) (rows (data base) ! i) \<noteq> None) b \<Longrightarrow>
    \<exists>raws. map (\<lambda>i. row_sample y s (image_dir base) (rows (data base) ! i)) b = map Some raws \<and>
      result (fetch_records ops y base kw draws b s) =
        Inr (map2 (scene_record ops kw) raws (map draws b)) \<and>
      final (fetch_records ops y base kw draws b s) = s"
proof (induction b)
  case Nil
  then show ?case by simp
next
  case (Cons i b)
  then obtain x where i: "i < length (rows (data base))"
    and x: "row_sample y s (image_dir base) (rows (data base) ! i) = Some x"
    by auto
  note g = getitem_row_sample [OF cols tr i x]
  from Cons obtain raws
    where raws: "map (\<lambda>i. row_sample y s (image_dir base) (rows (data base) ! i)) b = map Some raws"
      and res: "result (fetch_records ops y base kw draws b s) =
        Inr (map2 (scene_record ops kw) raws (map draws b))"
      and fin: "final (fetch_records ops y base kw draws b s) = s"
    by auto
  have "map (\<lambda>i. row_sample y s (image_dir base) (rows (data base) ! i)) (i # b) = map Some (x # raws)"
    using x raws by simp
  moreover have "result (fetch_records ops y base kw draws (i # b) s) =
        Inr (map2 (scene_record ops kw) (x # raws) (map draws (i # b)))"
    using g res fin by (simp add: SceneDataset_getitem_def bindA_simps)
  moreover have "final (fetch_records ops y base kw draws (i # b) s) = s"
    using g res fin by (simp add: SceneDataset_getitem_def bindA_simps)
  ultimately show ?case by blast
qed

lemma fetch_batch_rows:
  assumes cols: "columns (data base) = [''imageA'', ''prompt'', ''imageB'']"
    and tr: "transform_of base = Some transform"
    and ok: "list_all (\<lambda>i. i < length (rows (data base)) \<and>
                     row_sample y s (image_dir base) (rows (data base) ! i) \<noteq> None) b"
  shows "\<exists>raws. map (\<lambda>i. row_sample y s (image_dir base) (rows (data base) ! i)) b = map Some raws \<and>
      result (fetch_batch ops y base kw draws b s) =
        Inr (collate (map2 (scene_record ops kw) raws (map draws b))) \<and>
      length (condition_images (collate (map2 (scene_record ops kw) raws (map draws b)))) = length b \<and>
      length (target_images (collate (map2 (scene_record ops kw) raws (map draws b)))) = length b \<and>
      length (prompts (collate (map2 (scene_record ops kw) raws (map draws b)))) = length b \<and>
      final (fetch_batch ops y base kw draws b s) = s"
proof -
  from fetch_records_rows [OF cols tr ok, of ops kw draws] obtain raws
    where raws: "map (\<lambda>i. row_sample y s (image_dir base) (rows (data base) ! i)) b = map Some raws"
      and res: "result (fetch_records ops y base kw draws b s) =
        Inr (map2 (scene_record ops kw) raws (map draws b))"
      and fin: "final (fetch_records ops y base kw draws b s) = s"
    by blast
  from raws have len: "length raws = length b"
    by (metis length_map)
  show ?thesis
    using raws res fin len
    by (intro exI [of _ raws]) (simp add: fetch_batch_def bindA_simps collate_def)
qed


text \<open>
  C7. Take a run that got through its first lines with the tag "scene",
  \<^verbatim>\<open>batch_size=2\<close> and \<^verbatim>\<open>dataloader_workers=0\<close> in its training configuration, where the
  file the run reads as its CSV parses to a table of 4 rows in the scene format whose
  images open in the run's image directory, and that calls the driver's fit with a
  loader. Then that loader is the one of lines 163-168 around the scene adapter around
  the local dataset of that table, with the configured batch size 2 and 0 workers; its
  dataset has as many records as the table has rows, 4; for any order of the indices
  0 to 3 an epoch has exactly 2 batches, the ceiling of 4/2, of 2 indices each; and
  fetching a batch reads, for each index, the row's two images and prompt through the
  source's \<^verbatim>\<open>__getitem__\<close> and gives 2 condition images, 2 target images and 2 prompt
  strings, the adapter's records of exactly those rows, without touching the file
  system. In general the local dataset's length is the number of rows of the table read
  from its CSV file, and an epoch of the loader has the ceiling of length over batch
  size batches.
\<close>

theorem scene_run_of_four_rows_has_two_batches:
  assumes init: "result (initialize y s) = Inr c"
    and scene: "dataset_opt (training_config c) ''type'' = Inr (YStr ''scene'')"
    and bsz: "subscript (training_config c) ''batch_size'' = Inr (YInt 2)"
    and workers: "subscript (training_config c) ''dataloader_workers'' = Inr (YInt 0)"
    and fit: "TrainerFit tr mo l \<in> set (events (main y s))"
    and csv: "files s ''csv_path'' = Some content" "csv_parse y content = Inr df"
    and four: "length (rows df) = 4"
    and cols: "columns df = [''imageA'', ''prompt'', ''imageB'']"
    and images: "list_all (\<lambda>r. row_sample y s ''images_path'' r \<noteq> None) (rows df)"
    and perm: "set order = {0..<4}" "length order = 4"
  shows "(\<exists>kw. padded_kwargs (training_config c) = Inr kw \<and>
      l = DataLoader (Adapter ''SceneDataset'' (Local (scene_local df)) kw) loader_kwargs_2_0 \<and>
      scene_base l = Some (scene_local df, kw) \<and>
      LocalSubjectsDataset_len (scene_local df) = length (rows df) \<and>
      loader_len y l = 4 \<and>
      loader_batches l order = Some [take 2 order, drop 2 order] \<and>
      length [take 2 order, drop 2 order] = (loader_len y l + 2 - 1) div 2 \<and>
      list_all
        (\<lambda>b. length b = 2 \<and>
           (\<exists>raws. map (\<lambda>i. row_sample y s ''images_path'' (rows df ! i)) b = map Some raws \<and>
              result (fetch_batch ops y (scene_local df) kw draws b s) =
                Inr (collate (map2 (scene_record ops kw) raws (map draws b))) \<and>
              length (condition_images (collate (map2 (scene_record ops kw) raws (map draws b)))) = 2 \<and>
              length (target_images (collate (map2 (scene_record ops kw) raws (map draws b)))) = 2 \<and>
              length (prompts (collate (map2 (scene_record ops kw) raws (map draws b)))) = 2 \<and>
              final (fetch_batch ops y (scene_local df) kw draws b s) = s))
        [take 2 order, drop 2 order]) \<and>
    (\<forall>base p d t. result (LocalSubjectsDataset_init y p d t s) = Inr base \<longrightarrow>
       (\<exists>content'. files s p = Some content' \<and> csv_parse y content' = Inr (data base) \<and>
          LocalSubjectsDataset_len base = length (rows (data base)))) \<and>
    (\<forall>order'. \<exists>bs. loader_batches l order' = Some bs \<and>
       length bs = (length order' + 2 - 1) div 2)"
proof -
  have "TrainerFit tr mo l \<notin> set (events (initialize y s))"
    by (rule no_fit_in, rule emits_initialize) simp_all
  with fit have "TrainerFit tr mo l \<in> set (events (main_from y c s))"
    by (simp add: main_when_initialize_returns [OF init])
  from main_from_fit_loader [OF this] obtain d
    where d: "result (select_dataset y c s) = Inr d" and ml: "result (make_loader y c d s) = Inr l"
    by blast
  from result_make_loader [OF ml] bsz workers
  have l: "l = DataLoader d loader_kwargs_2_0"
    by (auto simp: loader_kwargs_2_0_def)
  from select_dataset_scene_adapter [OF scene d] obtain base kw
    where dk: "d = Adapter ''SceneDataset'' (Local base) kw"
      and kw: "padded_kwargs (training_config c) = Inr kw"
      and base: "result (LocalSubjectsDataset_init y ''csv_path'' ''images_path'' (Some transform) s)
                   = Inr base"
    by blast
  have b: "base = scene_local df"
    by (rule scene_local_of_init [OF base csv])
  have lsd: "l = DataLoader (Adapter ''SceneDataset'' (Local (scene_local df)) kw) loader_kwargs_2_0"
    using l dk b by simp
  have len: "LocalSubjectsDataset_len (scene_local df) = length (rows df)"
    by (simp add: LocalSubjectsDataset_len_def scene_local_def)
  have ll: "loader_len y l = 4"
    by (simp add: lsd len four)
  have lb: "loader_batches l order' = Some (chunks 2 order')" for order'
    by (simp add: lsd loader_kwargs_2_0_def)
  have batches: "loader_batches l order = Some [take 2 order, drop 2 order]"
    by (simp add: lb chunks_two_of_four perm)
  have sl: "columns (data (scene_local df)) = [''imageA'', ''prompt'', ''imageB'']"
      "transform_of (scene_local df) = Some transform" "image_dir (scene_local df) = ''images_path''"
      "data (scene_local df) = df"
    by (simp_all add: scene_local_def cols)
  have ok: "list_all (\<lambda>i. i < length (rows (data (scene_local df))) \<and>
      row_sample y s (image_dir (scene_local df)) (rows (data (scene_local df)) ! i) \<noteq> None) b"
    if "set b \<subseteq> set order" for b
    using that perm four images by (auto simp: list_all_iff sl)
  have t: "set (take 2 order) \<subseteq> set order" and dr: "set (drop 2 order) \<subseteq> set order"
    by (rule set_take_subset, rule set_drop_subset)
  note f1 = fetch_batch_rows [OF sl(1,2) ok [OF t], of ops kw draws]
  note f2 = fetch_batch_rows [OF sl(1,2) ok [OF dr], of ops kw draws]
  have init_len: "\<exists>content'. files s p = Some content' \<and> csv_parse y content' = Inr (data base') \<and>
          LocalSubjectsDataset_len base' = length (rows (data base'))"
    if "result (LocalSubjectsDataset_init y p d' t' s) = Inr base'" for base' p d' t'
    using result_LocalSubjectsDataset_init(4) [OF that]
    by (simp add: LocalSubjectsDataset_len_def)
  have general: "\<exists>bs. loader_batches l order' = Some bs \<and> length bs = (length order' + 2 - 1) div 2"
    for order'
    by (simp add: lb length_chunks)
  have first: "\<exists>kw. padded_kwargs (training_config c) = Inr kw \<and>
      l = DataLoader (Adapter ''SceneDataset'' (Local (scene_local df)) kw) loader_kwargs_2_0 \<and>
      scene_base l = Some (scene_local df, kw) \<and>
      LocalSubjectsDataset_len (scene_local df) = length (rows df) \<and>
      loader_len y l = 4 \<and>
      loader_batches l order = Some [take 2 order, drop 2 order] \<and>
      length [take 2 order, drop 2 order] = (loader_len y l + 2 - 1) div 2 \<and>
      list_all
        (\<lambda>b. length b = 2 \<and>
           (\<exists>raws. map (\<lambda>i. row_sample y s ''images_path'' (rows df ! i)) b = map Some raws \<and>
              result (fetch_batch ops y (scene_local df) kw draws b s) =
                Inr (collate (map2 (scene_record ops kw) raws (map draws b))) \<and>
              length (condition_images (collate (map2 (scene_record ops kw) raws (map draws b)))) = 2 \<and>
              length (target_images (collate (map2 (scene_record ops kw) raws (map draws b)))) = 2 \<and>
              length (prompts (collate (map2 (scene_record ops kw) raws (map draws b)))) = 2 \<and>
              final (fetch_batch ops y (scene_local df) kw draws b s) = s))
        [take 2 order, drop 2 order]"
    using kw lsd len ll batches f1 f2 perm(2)
    by (intro exI [of _ kw]) (simp add: sl)
  show ?thesis
    using first init_len general by blast
qed

lemma demo_fit:
  "TrainerFit demo_trainer demo_model demo_loader
     \<in> set (events (main (demo_sys rank1 (demo_config (YStr ''scene'') [])) demo_fs))"
  by code_simp

lemma demo_rows_open:
  "list_all (\<lambda>r. row_sample (demo_sys rank1 (demo_config (YStr ''scene'') [])) demo_fs
                    ''images_path'' r \<noteq> None) (rows demo_table)"
  by code_simp

lemma demo_order: "set [2, 0, 3, 1] = {0..<4::nat}"
  by (auto simp: eval_nat_numeral less_Suc_eq)

lemma demo_batch:
  "fetch_batch demo_ops (demo_sys rank1 (demo_config (YStr ''scene'') [])) (scene_local demo_table)
     demo_adapter_kwargs demo_draws [3, 1] demo_fs =
   (Inr \<lparr>condition_images =
           [\<lparr>img_bytes = ''A3'', img_mode = ''RGB'', img_width = 600, img_height = 600\<rparr>,
            \<lparr>img_bytes = ''A1'', img_mode = ''RGB'', img_width = 600, img_height = 600\<rparr>],
         target_images =
           [\<lparr>img_bytes = ''B3'', img_mode = ''RGB'', img_width = 600, img_height = 600\<rparr>,
            \<lparr>img_bytes = ''B1'', img_mode = ''RGB'', img_width = 600, img_height = 600\<rparr>],
         prompts = [[], ''p1''],
         condition_types = [YStr ''scene'', YStr ''scene''],
         drop_flags = [(True, False), (False, False)]\<rparr>,
    [OpenImage ''images_path/a3.png'', OpenImage ''images_path/b3.png'',
     OpenImage ''images_path/a1.png'', OpenImage ''images_path/b1.png''],
    demo_fs)"
  by (intro act_eqI) (code_simp, code_simp, simp add: fetch_batch_def SceneDataset_getitem_def
      LocalSubjectsDataset_getitem_def bindA_simps del: image_open_simps(1) split: sum.split)

theorem scene_run_of_four_rows_has_two_batches_witness:
  "TrainerFit demo_trainer demo_model demo_loader
     \<in> set (events (main (demo_sys rank1 (demo_config (YStr ''scene'') [])) demo_fs)) \<and>
   length (rows demo_table) = 4 \<and>
   demo_loader =
     DataLoader (Adapter ''SceneDataset'' (Local (scene_local demo_table)) demo_adapter_kwargs)
       loader_kwargs_2_0 \<and>
   loader_len (demo_sys rank1 (demo_config (YStr ''scene'') [])) demo_loader = 4 \<and>
   loader_batches demo_loader [2, 0, 3, 1] = Some [[2, 0], [3, 1]] \<and>
   result (fetch_batch demo_ops (demo_sys rank1 (demo_config (YStr ''scene'') []))
             (scene_local demo_table) demo_adapter_kwargs demo_draws [3, 1] demo_fs) =
     Inr \<lparr>condition_images =
           [\<lparr>img_bytes = ''A3'', img_mode = ''RGB'', img_width = 600, img_height = 600\<rparr>,
            \<lparr>img_bytes = ''A1'', img_mode = ''RGB'', img_width = 600, img_height = 600\<rparr>],
         target_images =
           [\<lparr>img_bytes = ''B3'', img_mode = ''RGB'', img_width = 600, img_height = 600\<rparr>,
            \<lparr>img_bytes = ''B1'', img_mode = ''RGB'', img_width = 600, img_height = 600\<rparr>],
         prompts = [[], ''p1''],
         condition_types = [YStr ''scene'', YStr ''scene''],
         drop_flags = [(True, False), (False, False)]\<rparr>"
proof -
  let ?y = "demo_sys rank1 (demo_config (YStr ''scene'') [])"
  have i: "result (initialize ?y demo_fs) = Inr (demo_ctx 1 (YStr ''scene'') [])"
    by (simp add: demo_initialize demo_fs_def)
  have c: "dataset_opt (training_config (demo_ctx 1 (YStr ''scene'') [])) ''type'' = Inr (YStr ''scene'')"
    "subscript (training_config (demo_ctx 1 (YStr ''scene'') [])) ''batch_size'' = Inr (YInt 2)"
    "subscript (training_config (demo_ctx 1 (YStr ''scene'') [])) ''dataloader_workers'' = Inr (YInt 0)"
    by (simp_all add: demo_ctx_def demo_train_def demo_dataset_def dataset_opt_def bindE_def)
  have f: "files demo_fs ''csv_path'' = Some ''table''" "csv_parse ?y ''table'' = Inr demo_table"
    "length (rows demo_table) = 4" "columns demo_table = [''imageA'', ''prompt'', ''imageB'']"
    "length [2, 0, 3, 1 :: nat] = 4"
    by (simp_all add: demo_fs_def demo_sys_def demo_table_def)
  from scene_run_of_four_rows_has_two_batches
      [OF i c demo_fit f(1,2,3,4) demo_rows_open demo_order f(5), of demo_ops demo_draws]
  obtain kw where "demo_loader =
      DataLoader (Adapter ''SceneDataset'' (Local (scene_local demo_table)) kw) loader_kwargs_2_0"
    and "loader_len ?y demo_loader = 4"
    and "loader_batches demo_loader [2, 0, 3, 1] = Some [take 2 [2, 0, 3, 1], drop 2 [2, 0, 3, 1]]"
    by blast
  then show ?thesis
    using demo_fit f(3) demo_batch by (simp add: demo_loader_def)
qed

end
